theory Spec2Isabelle
  imports Complex_Main "HOL-Library.Monad_Syntax"
begin

section \<open>Python values\<close>

text \<open>
  A Python \<open>str\<close> is a sequence of Unicode code points and \<open>len\<close> counts code points, so
  a text is a list of code points here. \<open>ustr\<close> embeds an ASCII literal; characters beyond
  ASCII are written as their code point.
\<close>

type_synonym pystr = "nat list"

definition ustr :: "string \<Rightarrow> pystr" where
  "ustr s = map of_char s"

definition newline :: nat where
  "newline = 10"

section \<open>Series operations (pandas)\<close>

text \<open>
  A float column is a list of \<open>rat option\<close>, \<open>None\<close> for NaN; a series after \<open>dropna()\<close> is a
  \<open>rat list\<close>. Floats are idealised as exact rationals.
\<close>

fun dropna :: "'a option list \<Rightarrow> 'a list" where
  "dropna [] = []"
| "dropna (None # xs) = dropna xs"
| "dropna (Some x # xs) = x # dropna xs"

text \<open>\<open>xs.iloc[i]\<close>: a negative index counts from the end; out of range raises IndexError (\<open>None\<close>).\<close>

definition iloc :: "'a list \<Rightarrow> int \<Rightarrow> 'a option" where
  "iloc xs i =
     (if 0 \<le> i \<and> i < int (length xs) then Some (xs ! nat i)
      else if i < 0 \<and> - int (length xs) \<le> i then Some (xs ! nat (int (length xs) + i))
      else None)"

text \<open>\<open>xs.tail(n)\<close>: the last \<open>n\<close> entries (all of them when there are fewer).\<close>

definition tail_n :: "nat \<Rightarrow> 'a list \<Rightarrow> 'a list" where
  "tail_n n xs = drop (length xs - n) xs"

text \<open>\<open>xs.mean()\<close> of a series without NaN: NaN (\<open>None\<close>) for the empty series.\<close>

definition mean :: "rat list \<Rightarrow> rat option" where
  "mean xs = (if xs = [] then None else Some (sum_list xs / of_nat (length xs)))"

text \<open>\<open>int(x)\<close> of a float: truncation towards zero; \<open>int(nan)\<close> raises ValueError (\<open>None\<close>).\<close>

definition py_int :: "rat option \<Rightarrow> int option" where
  "py_int x = (case x of None \<Rightarrow> None
                | Some r \<Rightarrow> Some (if 0 \<le> r then \<lfloor>r\<rfloor> else \<lceil>r\<rceil>))"

text \<open>
  \<open>xs.rolling(w).mean()\<close>: entry \<open>i\<close> is NaN while fewer than \<open>w\<close> observations are
  available, and the mean of \<open>xs[i-w+1 .. i]\<close> afterwards.
\<close>

definition rolling_mean :: "nat \<Rightarrow> rat list \<Rightarrow> rat option list" where
  "rolling_mean w xs =
     map (\<lambda>i. if i + 1 < w then None else mean (take w (drop (i + 1 - w) xs))) [0..<length xs]"

text \<open>\<open>close.diff().dropna()\<close>: the successive differences (the leading NaN is dropped).\<close>

definition diff_dropna :: "rat list \<Rightarrow> rat list" where
  "diff_dropna xs = map (\<lambda>(a, b). b - a) (zip xs (tl xs))"

text \<open>
  \<open>xs.ewm(alpha=a, adjust=False).mean()\<close>: \<open>y\<^sub>0 = x\<^sub>0\<close> and
  \<open>y\<^sub>t = (1 - a) * y\<^sub>t\<^sub>-\<^sub>1 + a * x\<^sub>t\<close>.
\<close>

fun ewm_from :: "rat \<Rightarrow> rat \<Rightarrow> rat list \<Rightarrow> rat list" where
  "ewm_from a y [] = [y]"
| "ewm_from a y (x # xs) = y # ewm_from a ((1 - a) * y + a * x) xs"

fun ewm_mean :: "rat \<Rightarrow> rat list \<Rightarrow> rat list" where
  "ewm_mean a [] = []"
| "ewm_mean a (x # xs) = ewm_from a x xs"

section \<open>Indicator Engine and Data Source Adapter: \<open>yf_get_symbol\<close>\<close>

text \<open>
  What \<open>yf.Ticker(ticker).history(...)\<close> does: it raises, returns \<open>None\<close>, or returns a
  frame with a \<open>Close\<close> column and possibly a \<open>Volume\<close> column (one entry per row, \<open>None\<close> for
  NaN).
\<close>

datatype fetch_result =
  ProviderRaises
| NoFrame
| Frame (close_col: "rat option list") (volume_col: "rat option list option")

record snapshot =
  price :: rat
  pct :: rat
  vol :: "int option"
  avg5_price :: "rat option"
  avg5_vol :: "int option"
  sma20 :: "rat option"
  sma50 :: "rat option"
  rsi14 :: "rat option"

text \<open>
  Lines 109-111 (the same three lines are in \<open>yf_get_index\<close>): last close, previous
  close and percent change. \<open>None\<close> is the IndexError of \<open>close.iloc[-1]\<close> on an empty series.
\<close>

definition last_and_change :: "rat list \<Rightarrow> (rat \<times> rat) option" where
  "last_and_change close =
     do {
       last \<leftarrow> iloc close (- 1);
       prev \<leftarrow> (if length close \<ge> 2 then iloc close (- 2) else Some last);
       Some (last, if prev \<noteq> 0 then (last / prev - 1) * 100 else 0)
     }"

text \<open>
  Lines 118-129. The outer \<open>option\<close> is an exception (there is none once the length guard
  holds, see \<open>rsi14_calc_defined\<close>), the inner one the value of \<open>rsi14\<close>, \<open>None\<close> when absent.
\<close>

definition rsi14_calc :: "rat list \<Rightarrow> rat option option" where
  "rsi14_calc close =
     (if length close \<ge> 15 then
        (let delta = diff_dropna close;
             ups = map (\<lambda>d. max d 0) delta;
             downs = map (\<lambda>d. - min d 0) delta;
             roll_up = ewm_mean (1 / 14) ups;
             roll_down = ewm_mean (1 / 14) downs
         in do {
              down \<leftarrow> iloc roll_down (- 1);
              if down \<noteq> 0 then
                do { up \<leftarrow> iloc roll_up (- 1);
                     Some (Some (100 - (100 / (1 + up / down)))) }
              else Some (Some 100)
            })
      else Some None)"

text \<open>
  \<open>yf_get_symbol\<close> as a function of the provider's reply. Every exception inside the
  \<open>try\<close> block ends in \<open>except Exception: ... return None\<close>, so the body runs in the
  \<open>option\<close> monad and \<open>None\<close> is the function's own \<open>None\<close>.
\<close>

definition yf_get_symbol :: "fetch_result \<Rightarrow> snapshot option" where
  "yf_get_symbol reply =
     (case reply of
        ProviderRaises \<Rightarrow> None
      | NoFrame \<Rightarrow> None
      | Frame ccol vcol \<Rightarrow>
          if ccol = [] then None
          else do {
            let close = dropna ccol;
            (last, pc) \<leftarrow> last_and_change close;
            v \<leftarrow> (case vcol of
                    None \<Rightarrow> Some None
                  | Some vs \<Rightarrow> do { x \<leftarrow> iloc vs (- 1); i \<leftarrow> py_int x; Some (Some i) });
            let avg5 = (if length close \<ge> 5 then mean (tail_n 5 close) else None);
            avgvol20 \<leftarrow> (case vcol of
                    None \<Rightarrow> Some None
                  | Some vs \<Rightarrow>
                      if length (dropna vs) \<ge> 20
                      then do { i \<leftarrow> py_int (mean (dropna (tail_n 20 vs))); Some (Some i) }
                      else Some None);
            s20 \<leftarrow> (if length close \<ge> 20 then iloc (rolling_mean 20 close) (- 1) else Some None);
            s50 \<leftarrow> (if length close \<ge> 50 then iloc (rolling_mean 50 close) (- 1) else Some None);
            r \<leftarrow> rsi14_calc close;
            Some \<lparr>price = last, pct = pc, vol = v, avg5_price = avg5, avg5_vol = avgvol20,
                   sma20 = s20, sma50 = s50, rsi14 = r\<rparr>
          })"

text \<open>
  The smoothing of the specification: the seed is the first raw value, then
  \<open>smoothed = smoothed_prev + alpha * (raw - smoothed_prev)\<close>; the result is the last
  smoothed value.
\<close>

fun wilder_fold :: "rat \<Rightarrow> rat \<Rightarrow> rat list \<Rightarrow> rat" where
  "wilder_fold a s [] = s"
| "wilder_fold a s (x # xs) = wilder_fold a (s + a * (x - s)) xs"

fun wilder_smoothed :: "rat \<Rightarrow> rat list \<Rightarrow> rat option" where
  "wilder_smoothed a [] = None"
| "wilder_smoothed a (x # xs) = Some (wilder_fold a x xs)"

text \<open>
  The gains and losses of the specification, stated on the closes themselves: the
  successive close-to-close differences \<open>close[i+1] - close[i]\<close>, the gains as the
  differences clipped to be at least 0, and the losses as the magnitudes of the negative
  differences.
\<close>

definition close_diffs :: "rat list \<Rightarrow> rat list" where
  "close_diffs close = map (\<lambda>i. close ! Suc i - close ! i) [0..<length close - 1]"

definition gains :: "rat list \<Rightarrow> rat list" where
  "gains close = map (\<lambda>d. if 0 < d then d else 0) (close_diffs close)"

definition losses :: "rat list \<Rightarrow> rat list" where
  "losses close = map (\<lambda>d. if d < 0 then - d else 0) (close_diffs close)"

section \<open>Configuration and environment\<close>

text \<open>
  The module-level settings read from the process environment: \<open>BOT_TOKEN\<close> and \<open>CHAT_ID\<close>
  (already stripped), whether the optional \<open>vnstock\<close> module was imported (\<open>vns is not None\<close>),
  \<open>USE_VNSTOCK\<close> and the three alert thresholds.
\<close>

record config =
  bot_token :: pystr
  chat_id :: pystr
  vns_present :: bool
  use_vnstock :: bool
  pct_alert_up :: rat
  pct_alert_down :: rat
  vol_surge_mult :: rat

text \<open>The watchlist.\<close>

definition SYMBOLS :: "pystr list" where
  "SYMBOLS = [ustr ''MBB'', ustr ''HPG'', ustr ''SSI'', ustr ''PVP'', ustr ''KSB'', ustr ''QTP'']"

text \<open>The outcome of \<open>requests.post\<close>: an exception with its text, or a status code and a body.\<close>

datatype http_result = PostRaises pystr | Response int pystr

text \<open>
  What the program takes from outside its own code: the clock, Python's number
  formatting, the market-data provider, the \<open>vnstock\<close> calls and the HTTP endpoint.
  \<open>history n ticker period\<close> is the provider's reply when the \<open>n\<close>-th fetch of the run asks
  for \<open>ticker\<close>, and \<open>fetch_exn_text n\<close> the text of the exception that fetch catches;
  \<open>vn_index\<close> is the \<open>idx_info\<close> that the \<open>vnstock\<close> block of \<open>build_report\<close> ends with (last
  value and optional percent change); \<open>try_vn_foreign\<close> returns the dictionary of
  \<open>try_vn_foreign(symbol)\<close>, taken with numeric values; \<open>http_post n url chat text\<close> is the
  outcome of the \<open>n\<close>-th post.
\<close>

record pyenv =
  now :: pystr
  fmt_2f :: "rat \<Rightarrow> pystr"
  fmt_1f :: "rat \<Rightarrow> pystr"
  fmt_plus_2f :: "rat \<Rightarrow> pystr"
  fmt_comma_0f :: "rat \<Rightarrow> pystr"
  fmt_comma_2f :: "rat \<Rightarrow> pystr"
  str_float :: "rat \<Rightarrow> pystr"
  str_int :: "int \<Rightarrow> pystr"
  history :: "nat \<Rightarrow> pystr \<Rightarrow> pystr \<Rightarrow> fetch_result"
  fetch_exn_text :: "nat \<Rightarrow> pystr"
  format_none_text :: pystr
  vn_index :: "(rat \<times> rat option) option"
  try_vn_foreign :: "pystr option \<Rightarrow> (pystr \<times> rat) list option"
  http_post :: "nat \<Rightarrow> pystr \<Rightarrow> pystr \<Rightarrow> pystr \<Rightarrow> http_result"

text \<open>
  The observable effects of a run, in order: a line printed to the console, a call of
  \<open>yf_get_symbol\<close> or \<open>yf_get_index\<close>, an HTTP post (url, chat id, text).
\<close>

datatype event =
  Printed pystr
| SymbolFetch pystr
| IndexFetch pystr
| HttpPost pystr pystr pystr

type_synonym trace = "event list"

fun is_fetch :: "event \<Rightarrow> bool" where
  "is_fetch (SymbolFetch s) = True"
| "is_fetch (IndexFetch t) = True"
| "is_fetch e = False"

fun is_index_fetch :: "event \<Rightarrow> bool" where
  "is_index_fetch (IndexFetch t) = True"
| "is_index_fetch e = False"

fun is_post :: "event \<Rightarrow> bool" where
  "is_post (HttpPost u c t) = True"
| "is_post e = False"

text \<open>How many fetches, and how many posts, a run has made so far.\<close>

definition fetch_count :: "trace \<Rightarrow> nat" where
  "fetch_count tr = length (filter is_fetch tr)"

definition post_count :: "trace \<Rightarrow> nat" where
  "post_count tr = length (filter is_post tr)"

text \<open>\<open>dbg(msg)\<close> prints \<open>[DEBUG] msg\<close>.\<close>

definition dbg :: "pystr \<Rightarrow> event" where
  "dbg msg = Printed (ustr ''[DEBUG] '' @ msg)"

section \<open>Formatting helpers\<close>

text \<open>
  \<open>fm_money_million\<close>, \<open>fm_shares_million\<close> and \<open>fm_pct\<close>: the placeholder for \<open>None\<close>, the
  formatted number otherwise (on a number the \<open>try\<close> of the first two never fails).
\<close>

definition em_dash :: pystr where
  "em_dash = [0x2014]"

definition fm_money_million :: "pyenv \<Rightarrow> rat option \<Rightarrow> pystr" where
  "fm_money_million env v =
     (case v of None \<Rightarrow> em_dash
      | Some x \<Rightarrow> fmt_comma_0f env (x / 1000000) @ ustr '' Mn'')"

definition fm_shares_million :: "pyenv \<Rightarrow> int option \<Rightarrow> pystr" where
  "fm_shares_million env v =
     (case v of None \<Rightarrow> em_dash
      | Some x \<Rightarrow> fmt_comma_2f env (of_int x / 1000000) @ ustr '' Mn'')"

definition fm_pct :: "pyenv \<Rightarrow> rat option \<Rightarrow> pystr" where
  "fm_pct env x =
     (case x of None \<Rightarrow> em_dash
      | Some p \<Rightarrow> fmt_plus_2f env p @ ustr ''%'')"

section \<open>Data Source Adapter calls\<close>

text \<open>
  A reply for which \<open>yf_get_symbol\<close> and \<open>yf_get_index\<close> return \<open>None\<close> at
  \<open>if hist is None or hist.empty\<close>, without an exception and so without a debug line.
\<close>

fun silent_none :: "fetch_result \<Rightarrow> bool" where
  "silent_none NoFrame = True"
| "silent_none (Frame ccol vcol) = (ccol = [])"
| "silent_none ProviderRaises = False"

text \<open>
  A call \<open>yf_get_symbol(symbol)\<close> within a run: it is recorded, the provider is asked for
  \<open>symbol.VN\<close> over 60 days, and the \<open>except\<close> branch prints its debug line.
\<close>

definition call_yf_get_symbol :: "pyenv \<Rightarrow> pystr \<Rightarrow> trace \<Rightarrow> snapshot option \<times> trace" where
  "call_yf_get_symbol env symbol tr =
     (let n = fetch_count tr;
          reply = history env n (symbol @ ustr ''.VN'') (ustr ''60d'');
          tr1 = tr @ [SymbolFetch symbol]
      in case yf_get_symbol reply of
           Some snap \<Rightarrow> (Some snap, tr1)
         | None \<Rightarrow>
             if silent_none reply then (None, tr1)
             else (None, tr1 @ [dbg (ustr ''yf_get_symbol error for '' @ symbol @ ustr '': ''
                                      @ fetch_exn_text env n)]))"

text \<open>\<open>yf_get_index\<close> as a function of the provider's reply: \<open>{"last": last, "pct": pct}\<close>.\<close>

definition yf_get_index :: "fetch_result \<Rightarrow> (rat \<times> rat) option" where
  "yf_get_index reply =
     (case reply of
        ProviderRaises \<Rightarrow> None
      | NoFrame \<Rightarrow> None
      | Frame ccol vcol \<Rightarrow> if ccol = [] then None else last_and_change (dropna ccol))"

definition call_yf_get_index ::
  "pyenv \<Rightarrow> pystr \<Rightarrow> trace \<Rightarrow> (rat \<times> rat option) option \<times> trace" where
  "call_yf_get_index env index_ticker tr =
     (let n = fetch_count tr;
          reply = history env n index_ticker (ustr ''120d'');
          tr1 = tr @ [IndexFetch index_ticker]
      in case yf_get_index reply of
           Some (lst, pc) \<Rightarrow> (Some (lst, Some pc), tr1)
         | None \<Rightarrow>
             if silent_none reply then (None, tr1)
             else (None, tr1 @ [dbg (ustr ''yf_get_index error: '' @ fetch_exn_text env n)]))"

section \<open>Report Formatter and Alert Evaluator: \<open>build_report\<close>\<close>

text \<open>The guard \<open>vns is not None and USE_VNSTOCK\<close>.\<close>

definition vns_enabled :: "config \<Rightarrow> bool" where
  "vns_enabled cfg = (vns_present cfg \<and> use_vnstock cfg)"

text \<open>Python's \<open>a or b\<close> on optional numbers: \<open>None\<close> and 0 are falsy.\<close>

definition py_or :: "rat option \<Rightarrow> rat option \<Rightarrow> rat option" where
  "py_or a b = (case a of None \<Rightarrow> b | Some x \<Rightarrow> if x \<noteq> 0 then a else b)"

text \<open>Line 176-179: the index line; \<open>None\<close> is the TypeError of formatting a \<open>pct\<close> of \<open>None\<close>.\<close>

definition index_line :: "pyenv \<Rightarrow> (rat \<times> rat option) option \<Rightarrow> pystr option" where
  "index_line env idx_info =
     (case idx_info of
        None \<Rightarrow> Some ([0x1F4C8] @ ustr '' VN-Index: '' @ [0x2014] @ ustr '' (l'' @ [0x1ED7]
                       @ ustr ''i d'' @ [0x1EEF] @ ustr '' li'' @ [0x1EC7] @ ustr ''u)'')
      | Some (lst, None) \<Rightarrow> None
      | Some (lst, Some pc) \<Rightarrow>
          Some ([0x1F4C8] @ ustr '' VN-Index: '' @ fmt_2f env lst @ ustr '' ('' @ fmt_plus_2f env pc
                @ ustr ''%) | GTGD: '' @ fm_money_million env None))"

text \<open>Lines 188-200: the market-wide foreign-flow line.\<close>

definition foreign_market_line :: "pyenv \<Rightarrow> (pystr \<times> rat) list option \<Rightarrow> pystr" where
  "foreign_market_line env fmarket =
     (case fmarket of
        Some (kv # d) \<Rightarrow>
          (let m = map_of (kv # d);
               fb = py_or (py_or (py_or (m (ustr ''buy'')) (m (ustr ''buy_value'')))
                                 (m (ustr ''total_buy''))) (m (ustr ''buy_total''));
               fs = py_or (py_or (py_or (m (ustr ''sell'')) (m (ustr ''sell_value'')))
                                 (m (ustr ''total_sell''))) (m (ustr ''sell_total''));
               fn = (case (fb, fs) of (Some b, Some s) \<Rightarrow> Some (b - s) | _ \<Rightarrow> None)
           in [0x1F501] @ ustr '' Kh'' @ [0x1ED1] @ ustr ''i ngo'' @ [0x1EA1] @ ustr ''i (to'' @ [0xE0]
              @ ustr ''n TT): Mua '' @ fm_money_million env fb
              @ ustr '' / B'' @ [0xE1] @ ustr ''n '' @ fm_money_million env fs
              @ ustr '' '' @ [0x2192] @ ustr '' R'' @ [0xF2] @ ustr ''ng '' @ fm_money_million env fn)
      | _ \<Rightarrow> [0x1F501] @ ustr '' Kh'' @ [0x1ED1] @ ustr ''i ngo'' @ [0x1EA1] @ ustr ''i (to'' @ [0xE0]
              @ ustr ''n TT): '' @ [0x2014])"

text \<open>Lines 209-218: the per-symbol foreign buy and sell values.\<close>

definition foreign_for :: "pyenv \<Rightarrow> config \<Rightarrow> pystr \<Rightarrow> rat option \<times> rat option" where
  "foreign_for env cfg s =
     (if vns_enabled cfg then
        (case try_vn_foreign env (Some s) of
           Some fr \<Rightarrow>
             (let m = map_of fr
              in (py_or (py_or (m (ustr ''buy'')) (m (ustr ''buy_value''))) (m (ustr ''buy_total'')),
                  py_or (py_or (m (ustr ''sell'')) (m (ustr ''sell_value''))) (m (ustr ''sell_total''))))
         | None \<Rightarrow> (None, None))
      else (None, None))"

text \<open>
  Line 229: \<open>(vol / avgvol20) if vol and avgvol20 else None\<close>; a volume that is \<open>None\<close> or 0
  is falsy.
\<close>

definition vol_ratio_of :: "int option \<Rightarrow> int option \<Rightarrow> rat option" where
  "vol_ratio_of v a =
     (case (v, a) of
        (Some x, Some y) \<Rightarrow> if x \<noteq> 0 \<and> y \<noteq> 0 then Some (of_int x / of_int y) else None
      | _ \<Rightarrow> None)"

text \<open>Line 230: the suffix \<open>vol_ratio_s\<close>; a ratio that is \<open>None\<close> or 0 is falsy.\<close>

definition vol_ratio_s :: "pyenv \<Rightarrow> rat option \<Rightarrow> pystr" where
  "vol_ratio_s env vol_ratio =
     (case vol_ratio of
        None \<Rightarrow> []
      | Some r \<Rightarrow> if r \<noteq> 0 then ustr '' (VolRatio='' @ fmt_2f env r @ [0xD7] @ ustr '')'' else [])"

text \<open>Lines 223-231: the detail line of a symbol whose snapshot is present.\<close>

definition detail_line :: "pyenv \<Rightarrow> pystr \<Rightarrow> snapshot \<Rightarrow> rat option \<Rightarrow> rat option \<Rightarrow> pystr" where
  "detail_line env s info fb fs =
     s @ ustr '': '' @ (if price info \<noteq> 0 then str_float env (price info) else em_dash)
       @ ustr '' '' @ fm_pct env (Some (pct info))
       @ ustr '' | KL='' @ fm_shares_million env (vol info)
       @ vol_ratio_s env (vol_ratio_of (vol info) (avg5_vol info))
       @ ustr '' | TB tu'' @ [0x1EA7] @ ustr ''n: ''
       @ (case avg5_price info of
            None \<Rightarrow> em_dash
          | Some a \<Rightarrow> if a \<noteq> 0 then str_float env a else em_dash)
       @ ustr '' / '' @ fm_shares_million env (avg5_vol info)
       @ ustr '' | NN: Mua '' @ fm_money_million env fb
       @ ustr '' / B'' @ [0xE1] @ ustr ''n '' @ fm_money_million env fs"

text \<open>Line 221: the placeholder line of a symbol without data.\<close>

definition placeholder_line :: "pystr \<Rightarrow> pystr" where
  "placeholder_line s =
     s @ ustr '': '' @ [0x2014] @ ustr '' (l'' @ [0x1ED7] @ ustr ''i d'' @ [0x1EEF] @ ustr '' li''
       @ [0x1EC7] @ ustr ''u)''"

text \<open>
  The body of the first \<open>for s in SYMBOLS\<close> loop after the fetch: the one line it appends
  for \<open>s\<close>, the placeholder when \<open>not info\<close>.
\<close>

definition symbol_line :: "pyenv \<Rightarrow> config \<Rightarrow> pystr \<Rightarrow> snapshot option \<Rightarrow> pystr" where
  "symbol_line env cfg s info =
     (let (fb, fs) = foreign_for env cfg s
      in case info of
           None \<Rightarrow> placeholder_line s
         | Some i \<Rightarrow> detail_line env s i fb fs)"

fun detail_loop ::
  "pyenv \<Rightarrow> config \<Rightarrow> pystr list \<Rightarrow> pystr list \<Rightarrow> trace \<Rightarrow> pystr list \<times> trace" where
  "detail_loop env cfg [] lines tr = (lines, tr)"
| "detail_loop env cfg (s # ss) lines tr =
     (let (info, tr1) = call_yf_get_symbol env s tr
      in detail_loop env cfg ss (lines @ [symbol_line env cfg s info]) tr1)"

text \<open>Lines 240, 242, 246: the three alert messages.\<close>

definition surge_up_msg :: "pyenv \<Rightarrow> pystr \<Rightarrow> rat \<Rightarrow> pystr" where
  "surge_up_msg env s pc =
     [0x1F525] @ ustr '' '' @ s @ ustr '' t'' @ [0x103] @ ustr ''ng m'' @ [0x1EA1] @ ustr ''nh: ''
       @ fm_pct env (Some pc)"

definition surge_down_msg :: "pyenv \<Rightarrow> pystr \<Rightarrow> rat \<Rightarrow> pystr" where
  "surge_down_msg env s pc =
     [0x1F4C9] @ ustr '' '' @ s @ ustr '' gi'' @ [0x1EA3] @ ustr ''m s'' @ [0xE2] @ ustr ''u: ''
       @ fm_pct env (Some pc)"

definition volume_spike_msg :: "pyenv \<Rightarrow> pystr \<Rightarrow> rat \<Rightarrow> pystr" where
  "volume_spike_msg env s r =
     [0x1F4CA] @ ustr '' '' @ s @ ustr '' KLGD '' @ [0x111, 0x1ED9] @ ustr ''t bi'' @ [0x1EBF]
       @ ustr ''n: '' @ fmt_1f env r @ [0xD7] @ ustr '' TB''"

text \<open>Lines 239-246: the alerts of one symbol whose snapshot is present.\<close>

definition alerts_for :: "pyenv \<Rightarrow> config \<Rightarrow> pystr \<Rightarrow> snapshot \<Rightarrow> pystr list" where
  "alerts_for env cfg s info =
     (if pct info \<ge> pct_alert_up cfg then [surge_up_msg env s (pct info)]
      else if pct info \<le> pct_alert_down cfg then [surge_down_msg env s (pct info)]
      else [])
     @ (case vol_ratio_of (vol info) (avg5_vol info) of
          None \<Rightarrow> []
        | Some r \<Rightarrow> if r \<noteq> 0 \<and> r \<ge> vol_surge_mult cfg then [volume_spike_msg env s r] else [])"

text \<open>
  The body of the second \<open>for s in SYMBOLS\<close> loop after the fetch: the alerts it appends
  for \<open>s\<close>, none unless \<open>if info\<close>.
\<close>

definition symbol_alerts :: "pyenv \<Rightarrow> config \<Rightarrow> pystr \<Rightarrow> snapshot option \<Rightarrow> pystr list" where
  "symbol_alerts env cfg s info =
     (case info of None \<Rightarrow> [] | Some i \<Rightarrow> alerts_for env cfg s i)"

fun alerts_loop ::
  "pyenv \<Rightarrow> config \<Rightarrow> pystr list \<Rightarrow> pystr list \<Rightarrow> trace \<Rightarrow> pystr list \<times> trace" where
  "alerts_loop env cfg [] alerts tr = (alerts, tr)"
| "alerts_loop env cfg (s # ss) alerts tr =
     (let (info, tr1) = call_yf_get_symbol env s tr
      in alerts_loop env cfg ss (alerts @ symbol_alerts env cfg s info) tr1)"

text \<open>\<open>"\n".join(lines)\<close>.\<close>

fun join_lines :: "pystr list \<Rightarrow> pystr" where
  "join_lines [] = []"
| "join_lines [l] = l"
| "join_lines (l # ls) = l @ [newline] @ join_lines ls"

text \<open>The fixed lines of the report: lines 154, 205, 234, 251 and 254.\<close>

definition header_line :: "pyenv \<Rightarrow> pystr" where
  "header_line env =
     [0x1F4CA] @ ustr '' B'' @ [0xE1] @ ustr ''o c'' @ [0xE1] @ ustr ''o th'' @ [0x1ECB]
       @ ustr '' tr'' @ [0x1B0, 0x1EDD] @ ustr ''ng '' @ [0x2014] @ ustr '' '' @ now env"

definition detail_header :: pystr where
  "detail_header = [0x1F4CC] @ ustr '' Chi ti'' @ [0x1EBF] @ ustr ''t m'' @ [0xE3] @ ustr '':''"

definition alerts_header :: pystr where
  "alerts_header = [0x26A0, 0xFE0F] @ ustr '' Alerts:''"

definition no_alerts_line :: pystr where
  "no_alerts_line =
     ustr ''(Kh'' @ [0xF4] @ ustr ''ng c'' @ [0xF3] @ ustr '' c'' @ [0x1EA3] @ ustr ''nh b'' @ [0xE1]
       @ ustr ''o)''"

definition footer_line :: "pyenv \<Rightarrow> pystr" where
  "footer_line env =
     ustr ''(Th'' @ [0x1EDD] @ ustr ''i gian b'' @ [0xE1] @ ustr ''o c'' @ [0xE1] @ ustr ''o: '' @ now env
       @ ustr '') - Bot_fixed''"

text \<open>
  The list \<open>lines\<close> that \<open>build_report\<close> joins, with the trace of the calls it made. The
  result is \<open>None\<close> when line 177 raises (the index value came from \<open>vnstock\<close> without a
  percent change); nothing else in the function raises.
\<close>

definition report_lines :: "pyenv \<Rightarrow> config \<Rightarrow> trace \<Rightarrow> pystr list option \<times> trace" where
  "report_lines env cfg tr0 =
     (let lines0 = [header_line env];
          (idx_info, tr1) =
            (case (if vns_enabled cfg then vn_index env else None) of
               Some i \<Rightarrow> (Some i, tr0)
             | None \<Rightarrow> call_yf_get_index env (ustr ''^VNINDEX'') tr0)
      in case index_line env idx_info of
           None \<Rightarrow> (None, tr1)
         | Some il \<Rightarrow>
             (let fmarket = (if vns_enabled cfg then try_vn_foreign env None else None);
                  lines1 = lines0 @ [il, foreign_market_line env fmarket, [], detail_header];
                  (lines2, tr2) = detail_loop env cfg SYMBOLS lines1 tr1;
                  lines3 = lines2 @ [[], alerts_header];
                  (alerts, tr3) = alerts_loop env cfg SYMBOLS [] tr2;
                  lines4 = (if alerts \<noteq> [] then lines3 @ alerts else lines3 @ [no_alerts_line])
              in (Some (lines4 @ [[], footer_line env]), tr3)))"

definition build_report :: "pyenv \<Rightarrow> config \<Rightarrow> trace \<Rightarrow> pystr option \<times> trace" where
  "build_report env cfg tr0 =
     (let (lines, tr) = report_lines env cfg tr0 in (map_option join_lines lines, tr))"

section \<open>Report Transport: \<open>chunk_text\<close>\<close>

text \<open>
  \<open>cur.rfind("\n", 0, limit)\<close>: the highest index below \<open>min limit (len cur)\<close> that holds a
  newline, or \<open>-1\<close>. The scan runs from the right end of the window down to index 0.
\<close>

fun rfind_from :: "nat \<Rightarrow> pystr \<Rightarrow> int" where
  "rfind_from 0 xs = - 1"
| "rfind_from (Suc i) xs = (if xs ! i = newline then int i else rfind_from i xs)"

definition rfind_newline :: "pystr \<Rightarrow> nat \<Rightarrow> int" where
  "rfind_newline cur limit = rfind_from (min limit (length cur)) cur"

text \<open>
  The \<open>while len(cur) > limit\<close> loop of \<open>chunk_text\<close> with its local state \<open>cur\<close>, \<open>chunks\<close>,
  followed by \<open>if cur: chunks.append(cur)\<close>. The loop may run forever, which is the value
  \<open>None\<close>.
\<close>

partial_function (option) chunk_loop :: "nat \<Rightarrow> pystr \<Rightarrow> pystr list \<Rightarrow> pystr list option" where
  "chunk_loop limit cur chunks =
     (if length cur > limit then
        (let cut0 = rfind_newline cur limit;
             cut = (if cut0 = - 1 then int limit else cut0)
         in chunk_loop limit (drop (nat cut) cur) (chunks @ [take (nat cut) cur]))
      else Some (if cur \<noteq> [] then chunks @ [cur] else chunks))"

text \<open>
  \<open>chunk_text(s, limit)\<close>; the argument may be \<open>None\<close>, which \<open>s or ""\<close> turns into the empty
  text (an empty text is falsy as well and stays empty).
\<close>

definition chunk_text :: "pystr option \<Rightarrow> nat \<Rightarrow> pystr list option" where
  "chunk_text s0 limit =
     (let s = (case s0 of None \<Rightarrow> [] | Some t \<Rightarrow> t)
      in if length s \<le> limit then Some [s] else chunk_loop limit s [])"

section \<open>Report Transport: \<open>send_to_telegram\<close> and \<open>main\<close>\<close>

text \<open>The \<open>for\<close> loop of \<open>send_to_telegram\<close> over the chunks, with its flag \<open>ok\<close>.\<close>

fun send_parts :: "pyenv \<Rightarrow> config \<Rightarrow> pystr \<Rightarrow> pystr list \<Rightarrow> bool \<Rightarrow> trace \<Rightarrow> bool \<times> trace" where
  "send_parts env cfg base [] ok tr = (ok, tr)"
| "send_parts env cfg base (part # parts) ok tr =
     (let n = post_count tr;
          tr1 = tr @ [HttpPost base (chat_id cfg) part]
      in case http_post env n base (chat_id cfg) part of
           Response code body \<Rightarrow>
             send_parts env cfg base parts (if code \<noteq> 200 then False else ok)
               (tr1 @ [dbg (ustr ''Telegram response '' @ str_int env code @ ustr '': '' @ take 200 body)])
         | PostRaises e \<Rightarrow>
             send_parts env cfg base parts False (tr1 @ [dbg (ustr ''Telegram send error: '' @ e)]))"

text \<open>
  \<open>send_to_telegram(text)\<close>: the returned flag and the trace; \<open>None\<close> when \<open>chunk_text\<close> does
  not return.
\<close>

definition send_to_telegram :: "pyenv \<Rightarrow> config \<Rightarrow> pystr \<Rightarrow> trace \<Rightarrow> (bool \<times> trace) option" where
  "send_to_telegram env cfg text tr =
     (if bot_token cfg = [] \<or> chat_id cfg = [] then
        Some (False,
              tr @ [dbg (ustr ''BOT_TOKEN or CHAT_ID missing - printing preview instead of sending''),
                    Printed text])
      else
        (let base = ustr ''https://api.telegram.org/bot'' @ bot_token cfg @ ustr ''/sendMessage'';
             tr1 = tr @ [dbg (ustr ''Sending to Telegram CHAT_ID='' @ chat_id cfg @ ustr '', token=***''
                              @ tail_n 6 (bot_token cfg))]
         in case chunk_text (Some text) 3500 of
              None \<Rightarrow> None
            | Some parts \<Rightarrow> Some (send_parts env cfg base parts True tr1)))"

text \<open>
  \<open>main()\<close>: the trace of the whole run; \<open>None\<close> when the run does not end. The \<open>except\<close>
  branch prints \<open>Fatal error:\<close> and the exception text (the traceback goes to the error
  stream, which is not part of the trace).
\<close>

definition main :: "pyenv \<Rightarrow> config \<Rightarrow> trace option" where
  "main env cfg =
     (case build_report env cfg [] of
        (None, tr1) \<Rightarrow> Some (tr1 @ [Printed (ustr ''Fatal error: '' @ format_none_text env)])
      | (Some report, tr1) \<Rightarrow>
          (let tr2 = tr1 @ [Printed (ustr ''=== Report preview ===''), Printed report]
           in case send_to_telegram env cfg report tr2 of
                None \<Rightarrow> None
              | Some (sent, tr3) \<Rightarrow>
                  Some (tr3 @ [dbg (if sent then ustr ''Report sent/attempted.''
                                    else ustr ''Report not sent.'')])))"

section \<open>Auxiliary definitions for the proofs and concrete runs\<close>

text \<open>
  A debug line is a printed line that starts with \<open>[DEBUG] \<close>, as every line of \<open>dbg\<close> does.
\<close>

fun is_debug :: "event \<Rightarrow> bool" where
  "is_debug (Printed t) = (take 8 t = ustr ''[DEBUG] '')"
| "is_debug e = False"

text \<open>
  The calls of \<open>yf_get_index\<close> that \<open>build_report\<close> makes: none when \<open>vnstock\<close> supplied the index
  value, one otherwise.
\<close>

definition index_fetches :: "pyenv \<Rightarrow> config \<Rightarrow> event list" where
  "index_fetches env cfg =
     (if vns_enabled cfg \<and> vn_index env \<noteq> None then [] else [IndexFetch (ustr ''^VNINDEX'')])"

text \<open>
  A stand-in environment for concrete runs: every provider call returns no frame, the
  \<open>vnstock\<close> module yields nothing, every post is answered with status 200, and the number
  formats are fixed texts.
\<close>

definition demo_env :: pyenv where
  "demo_env =
     \<lparr>now = ustr ''2024-01-02 15:00:00'',
      fmt_2f = (\<lambda>r. ustr ''#.##''), fmt_1f = (\<lambda>r. ustr ''#.#''),
      fmt_plus_2f = (\<lambda>r. ustr ''+#.##''), fmt_comma_0f = (\<lambda>r. ustr ''#''),
      fmt_comma_2f = (\<lambda>r. ustr ''#.##''), str_float = (\<lambda>r. ustr ''#.#''),
      str_int = (\<lambda>i. ustr ''#''),
      history = (\<lambda>n ticker period. NoFrame),
      fetch_exn_text = (\<lambda>n. []), format_none_text = [],
      vn_index = None, try_vn_foreign = (\<lambda>s. None),
      http_post = (\<lambda>n url chat body. Response 200 [])\<rparr>"

text \<open>The default thresholds, without messaging credentials and without \<open>vnstock\<close>.\<close>

definition default_config :: config where
  "default_config =
     \<lparr>bot_token = [], chat_id = [], vns_present = False, use_vnstock = True,
      pct_alert_up = 3, pct_alert_down = - 3, vol_surge_mult = 2\<rparr>"

text \<open>
  An environment in which the provider fails for \<open>MBB\<close> and answers with two closes for
  every other ticker.
\<close>

definition flaky_env :: pyenv where
  "flaky_env =
     demo_env\<lparr>history := (\<lambda>n ticker period.
        if ticker = ustr ''MBB.VN'' then ProviderRaises else Frame [Some 10, Some 11] None)\<rparr>"

text \<open>
  A frame of 20 sessions whose last session has volume 0, and the snapshot
  \<open>yf_get_symbol\<close> computes from it; two further snapshots; a configuration whose volume
  multiplier is 0.
\<close>

definition zero_volume_frame :: fetch_result where
  "zero_volume_frame =
     Frame (replicate 20 (Some 10)) (Some (replicate 19 (Some 1000) @ [Some 0]))"

definition zero_volume_snapshot :: snapshot where
  "zero_volume_snapshot =
     \<lparr>price = 10, pct = 0, vol = Some 0, avg5_price = Some 10, avg5_vol = Some 950,
      sma20 = Some 10, sma50 = None, rsi14 = Some 100\<rparr>"

definition busy_snapshot :: snapshot where
  "busy_snapshot =
     \<lparr>price = 10, pct = 3, vol = Some 2000, avg5_price = Some 10, avg5_vol = Some 1000,
      sma20 = Some 10, sma50 = None, rsi14 = Some 100\<rparr>"

definition zero_mult_config :: config where
  "zero_mult_config = default_config\<lparr>vol_surge_mult := 0\<rparr>"

definition falling_snapshot :: snapshot where
  "falling_snapshot =
     \<lparr>price = 97, pct = - 3, vol = Some 500, avg5_price = Some 99, avg5_vol = Some 1000,
      sma20 = Some 100, sma50 = None, rsi14 = Some 40\<rparr>"

section \<open>Properties of the indicators\<close>

lemma iloc_last: "xs \<noteq> [] \<Longrightarrow> iloc xs (- 1) = Some (last xs)"
proof -
  assume ne: "xs \<noteq> []"
  then have l: "1 \<le> length xs" by (cases xs) auto
  then have "nat (int (length xs) + - 1) = length xs - 1" by linarith
  with ne l show ?thesis by (simp add: iloc_def last_conv_nth)
qed

lemma iloc_empty: "iloc [] i = None"
  by (simp add: iloc_def)

lemma iloc_second_last: "2 \<le> length xs \<Longrightarrow> iloc xs (- 2) = Some (xs ! (length xs - 2))"
proof -
  assume l: "2 \<le> length xs"
  then have "nat (int (length xs) + - 2) = length xs - 2" by linarith
  with l show ?thesis by (simp add: iloc_def)
qed

lemma ewm_from_nonempty: "ewm_from a y xs \<noteq> []"
  by (cases xs) auto

lemma ewm_from_last: "last (ewm_from a y xs) = wilder_fold a y xs"
  by (induction xs arbitrary: y) (auto simp: algebra_simps ewm_from_nonempty)

lemma ewm_mean_last: "iloc (ewm_mean a xs) (- 1) = wilder_smoothed a xs"
  by (cases xs) (auto simp: iloc_empty iloc_last ewm_from_nonempty ewm_from_last)

lemma wilder_fold_nonneg:
  "0 \<le> a \<Longrightarrow> a \<le> 1 \<Longrightarrow> 0 \<le> s \<Longrightarrow> (\<forall>x \<in> set xs. 0 \<le> x) \<Longrightarrow> 0 \<le> wilder_fold a s xs"
proof (induction xs arbitrary: s)
  case Nil
  then show ?case by simp
next
  case (Cons x xs)
  have "s + a * (x - s) = (1 - a) * s + a * x" by (simp add: algebra_simps)
  moreover have "0 \<le> (1 - a) * s + a * x" using Cons.prems by simp
  ultimately have "0 \<le> s + a * (x - s)" by simp
  with Cons show ?case by simp
qed

lemma wilder_smoothed_nonneg:
  "0 \<le> a \<Longrightarrow> a \<le> 1 \<Longrightarrow> (\<forall>x \<in> set xs. 0 \<le> x) \<Longrightarrow> wilder_smoothed a xs = Some s \<Longrightarrow> 0 \<le> s"
  by (cases xs) (auto simp: wilder_fold_nonneg)

lemma wilder_smoothed_defined: "xs \<noteq> [] \<Longrightarrow> \<exists>s. wilder_smoothed a xs = Some s"
  by (cases xs) auto

lemma length_diff_dropna: "length (diff_dropna xs) = length xs - 1"
  by (simp add: diff_dropna_def)

lemma rsi_formula_bounds:
  fixes g l :: rat
  assumes "0 \<le> g" "0 < l"
  shows "0 \<le> 100 - 100 / (1 + g / l)" "100 - 100 / (1 + g / l) \<le> 100"
proof -
  have ge1: "1 \<le> 1 + g / l" using assms by simp
  have "100 / (1 + g / l) \<le> 100 / 1"
    using ge1 by (intro divide_left_mono) simp_all
  then have "100 / (1 + g / l) \<le> 100" by simp
  then show "0 \<le> 100 - 100 / (1 + g / l)" by simp
  have "0 \<le> 100 / (1 + g / l)" using ge1 by simp
  then show "100 - 100 / (1 + g / l) \<le> 100" by simp
qed

lemma rsi14_calc_short: "length close < 15 \<Longrightarrow> rsi14_calc close = Some None"
  by (simp add: rsi14_calc_def)

lemma diff_dropna_close_diffs: "diff_dropna xs = close_diffs xs"
proof (rule nth_equalityI)
  show "length (diff_dropna xs) = length (close_diffs xs)"
    by (simp add: diff_dropna_def close_diffs_def)
next
  fix i assume "i < length (diff_dropna xs)"
  then have i: "i < length xs - 1" by (simp add: diff_dropna_def)
  then have "tl xs ! i = xs ! Suc i" by (simp add: nth_tl)
  with i show "diff_dropna xs ! i = close_diffs xs ! i"
    by (simp add: diff_dropna_def close_diffs_def)
qed

lemma ups_gains: "map (\<lambda>d. max d 0) (diff_dropna close) = gains close"
  by (auto simp: diff_dropna_close_diffs gains_def max_def)

lemma downs_losses: "map (\<lambda>d. - min d 0) (diff_dropna close) = losses close"
  by (auto simp: diff_dropna_close_diffs losses_def min_def)

lemma rsi14_calc_defined:
  assumes "15 \<le> length close"
  shows "\<exists>g l. wilder_smoothed (1 / 14) (gains close) = Some g
             \<and> wilder_smoothed (1 / 14) (losses close) = Some l
             \<and> 0 \<le> g \<and> 0 \<le> l
             \<and> rsi14_calc close = Some (Some (if l = 0 then 100 else 100 - 100 / (1 + g / l)))"
proof -
  have len: "length (close_diffs close) = length close - 1" by (simp add: close_diffs_def)
  have ne: "gains close \<noteq> []" "losses close \<noteq> []"
    using assms len by (auto simp: gains_def losses_def)
  from wilder_smoothed_defined[OF ne(1)] obtain g
    where g: "wilder_smoothed (1 / 14) (gains close) = Some g" by blast
  from wilder_smoothed_defined[OF ne(2)] obtain l
    where l: "wilder_smoothed (1 / 14) (losses close) = Some l" by blast
  have g0: "0 \<le> g"
    by (rule wilder_smoothed_nonneg[OF _ _ _ g]) (auto simp: gains_def)
  have l0: "0 \<le> l"
    by (rule wilder_smoothed_nonneg[OF _ _ _ l]) (auto simp: losses_def)
  have "rsi14_calc close = Some (Some (if l = 0 then 100 else 100 - 100 / (1 + g / l)))"
    using assms g l
    by (simp add: rsi14_calc_def Let_def ewm_mean_last ups_gains downs_losses)
  with g l g0 l0 show ?thesis by blast
qed

lemma last_and_change_single: "last_and_change [x] = Some (x, 0)"
  by (simp add: last_and_change_def iloc_def)

lemma last_and_change_many:
  "2 \<le> length close \<Longrightarrow>
   last_and_change close =
     Some (last close,
           if close ! (length close - 2) \<noteq> 0
           then (last close / close ! (length close - 2) - 1) * 100 else 0)"
  by (subgoal_tac "close \<noteq> []") (auto simp: last_and_change_def iloc_last iloc_second_last)

lemma rolling_mean_last:
  assumes "w \<le> length xs" "0 < w"
  shows "iloc (rolling_mean w xs) (- 1) = Some (Some (sum_list (drop (length xs - w) xs) / of_nat w))"
proof -
  have ne: "xs \<noteq> []" using assms by auto
  then have "rolling_mean w xs \<noteq> []" by (simp add: rolling_mean_def)
  then have "iloc (rolling_mean w xs) (- 1) = Some (last (rolling_mean w xs))"
    by (rule iloc_last)
  also have "last (rolling_mean w xs) = mean (take w (drop (length xs - w) xs))"
    using ne assms by (simp add: rolling_mean_def last_map)  
  also have "take w (drop (length xs - w) xs) = drop (length xs - w) xs"
    using assms by simp
  also have "mean (drop (length xs - w) xs) = Some (sum_list (drop (length xs - w) xs) / of_nat w)"
    using assms by (simp add: mean_def)
  finally show ?thesis .
qed

lemma yf_get_symbol_SomeD:
  assumes "yf_get_symbol (Frame ccol vcol) = Some snap"
  shows "last_and_change (dropna ccol) = Some (price snap, pct snap)"
    and "rsi14_calc (dropna ccol) = Some (rsi14 snap)"
    and "(if length (dropna ccol) \<ge> 20 then iloc (rolling_mean 20 (dropna ccol)) (- 1) else Some None)
           = Some (sma20 snap)"
  using assms
  by (auto simp: yf_get_symbol_def Let_def bind_eq_Some_conv split: if_splits)

text \<open>
  C1. The 14-period RSI is absent for fewer than 15 closes. For at least 15 closes it is
  defined and lies in \<open>[0, 100]\<close>; with \<open>g\<close> and \<open>l\<close> the Wilder-smoothed (alpha \<open>1/14\<close>,
  seeded with the first raw value) gains and losses of the close-to-close differences,
  it is 100 when \<open>l = 0\<close> and \<open>100 - 100 / (1 + g / l)\<close> otherwise. The \<open>rsi14\<close> field of every
  snapshot that \<open>yf_get_symbol\<close> returns is this value for the frame's non-NaN closes. The
  gains, losses and smoothing are those of the specification, defined apart from the
  code's \<open>diff\<close>, \<open>clip\<close> and \<open>ewm\<close>, which are shown to compute them.
\<close>

theorem rsi14_spec:
  "(length close < 15 \<longrightarrow> rsi14_calc close = Some None) \<and>
   (15 \<le> length close \<longrightarrow>
      (\<exists>g l r. wilder_smoothed (1 / 14) (gains close) = Some g
             \<and> wilder_smoothed (1 / 14) (losses close) = Some l
             \<and> rsi14_calc close = Some (Some r) \<and> 0 \<le> r \<and> r \<le> 100
             \<and> (l = 0 \<longrightarrow> r = 100)
             \<and> (l \<noteq> 0 \<longrightarrow> r = 100 - 100 / (1 + g / l)))) \<and>
   (\<forall>ccol vcol snap. yf_get_symbol (Frame ccol vcol) = Some snap \<and> dropna ccol = close
        \<longrightarrow> rsi14_calc close = Some (rsi14 snap))"
proof (intro conjI impI allI)
  assume "length close < 15"
  then show "rsi14_calc close = Some None" by (rule rsi14_calc_short)
next
  assume "15 \<le> length close"
  from rsi14_calc_defined[OF this] obtain g l where
    g: "wilder_smoothed (1 / 14) (gains close) = Some g" and
    l: "wilder_smoothed (1 / 14) (losses close) = Some l" and
    nn: "0 \<le> g" "0 \<le> l" and
    r: "rsi14_calc close = Some (Some (if l = 0 then 100 else 100 - 100 / (1 + g / l)))"
    by blast
  define r where "r = (if l = 0 then 100 else 100 - 100 / (1 + g / l))"
  have "0 \<le> r \<and> r \<le> 100"
  proof (cases "l = 0")
    case True
    then show ?thesis by (simp add: r_def)
  next
    case False
    with nn have "0 < l" by simp
    from rsi_formula_bounds[OF nn(1) this] False show ?thesis by (simp add: r_def)
  qed
  with g l r show "\<exists>g l r. wilder_smoothed (1 / 14) (gains close) = Some g
             \<and> wilder_smoothed (1 / 14) (losses close) = Some l
             \<and> rsi14_calc close = Some (Some r) \<and> 0 \<le> r \<and> r \<le> 100
             \<and> (l = 0 \<longrightarrow> r = 100)
             \<and> (l \<noteq> 0 \<longrightarrow> r = 100 - 100 / (1 + g / l))"
    unfolding r_def by (intro exI[of _ g] exI[of _ l] exI[of _ "if l = 0 then 100 else 100 - 100 / (1 + g / l)"]) simp
next
  fix ccol vcol snap
  assume "yf_get_symbol (Frame ccol vcol) = Some snap \<and> dropna ccol = close"
  then show "rsi14_calc close = Some (rsi14 snap)"
    using yf_get_symbol_SomeD(2)[of ccol vcol snap] by auto
qed

theorem rsi14_spec_witness:
  "rsi14_calc [3, 2, 1] = Some None \<and>
   (\<exists>snap. yf_get_symbol (Frame [Some 3, Some 2, Some 1] None) = Some snap \<and> rsi14 snap = None) \<and>
   gains [2, 1, 2, 2, 2, 2, 2, 2, 2, 2, 2, 2, 2, 2, 2] = [0, 1, 0, 0, 0, 0, 0, 0, 0, 0, 0, 0, 0, 0] \<and>
   losses [2, 1, 2, 2, 2, 2, 2, 2, 2, 2, 2, 2, 2, 2, 2] = [1, 0, 0, 0, 0, 0, 0, 0, 0, 0, 0, 0, 0, 0] \<and>
   (\<exists>r. rsi14_calc [2, 1, 2, 2, 2, 2, 2, 2, 2, 2, 2, 2, 2, 2, 2] = Some (Some r) \<and> 0 \<le> r \<and> r \<le> 100) \<and>
   rsi14_calc [2, 1, 2, 2, 2, 2, 2, 2, 2, 2, 2, 2, 2, 2, 2] = Some (Some (50 / 7)) \<and>
   rsi14_calc [20, 19, 18, 17, 16, 15, 14, 13, 12, 11, 10, 9, 8, 7, 6, 5, 4, 3, 2, 1] = Some (Some 0) \<and>
   rsi14_calc [1, 2, 3, 4, 5, 6, 7, 8, 9, 10, 11, 12, 13, 14, 15] = Some (Some 100)"
proof -
  have e: "yf_get_symbol (Frame [Some 3, Some 2, Some 1] None) =
    Some \<lparr>price = 1, pct = - 50, vol = None, avg5_price = None, avg5_vol = None,
           sma20 = None, sma50 = None, rsi14 = None\<rparr>"
    by code_simp
  have d: "dropna [Some 3, Some 2, Some (1::rat)] = [3, 2, 1]" by simp
  have short: "rsi14_calc [3, 2, 1] = Some None \<and>
        (\<exists>snap. yf_get_symbol (Frame [Some 3, Some 2, Some 1] None) = Some snap \<and> rsi14 snap = None)"
    using rsi14_spec[of "[3, 2, 1]"] e d by simp
  have gl: "gains [2, 1, 2, 2, 2, 2, 2, 2, 2, 2, 2, 2, 2, 2, 2] = [0, 1, 0, 0, 0, 0, 0, 0, 0, 0, 0, 0, 0, 0]"
    "losses [2, 1, 2, 2, 2, 2, 2, 2, 2, 2, 2, 2, 2, 2, 2] = [1, 0, 0, 0, 0, 0, 0, 0, 0, 0, 0, 0, 0, 0]"
    by code_simp+
  have bounds: "\<exists>r. rsi14_calc [2, 1, 2, 2, 2, 2, 2, 2, 2, 2, 2, 2, 2, 2, 2] = Some (Some r) \<and> 0 \<le> r \<and> r \<le> 100"
    using rsi14_spec[of "[2, 1, 2, 2, 2, 2, 2, 2, 2, 2, 2, 2, 2, 2, 2]"] by auto
  have mixed: "rsi14_calc [2, 1, 2, 2, 2, 2, 2, 2, 2, 2, 2, 2, 2, 2, 2] = Some (Some (50 / 7))"
    by code_simp
  have falling: "rsi14_calc [20, 19, 18, 17, 16, 15, 14, 13, 12, 11, 10, 9, 8, 7, 6, 5, 4, 3, 2, 1] = Some (Some 0)"
    by code_simp
  have rising: "rsi14_calc [1, 2, 3, 4, 5, 6, 7, 8, 9, 10, 11, 12, 13, 14, 15] = Some (Some 100)"
    by code_simp
  from short gl bounds mixed falling rising show ?thesis by blast
qed

text \<open>
  C7. The percent change of a snapshot is 0 for a series of one close and when the
  previous (second-to-last) close is 0; otherwise it is \<open>(last / previous - 1) * 100\<close>.
\<close>

theorem pct_change_spec:
  assumes "yf_get_symbol (Frame ccol vcol) = Some snap" and "close = dropna ccol"
  shows "(length close = 1 \<longrightarrow> pct snap = 0) \<and>
         (2 \<le> length close \<longrightarrow>
            (close ! (length close - 2) = 0 \<longrightarrow> pct snap = 0) \<and>
            (close ! (length close - 2) \<noteq> 0 \<longrightarrow>
               pct snap = (last close / close ! (length close - 2) - 1) * 100))"
proof (intro conjI impI)
  note lc = yf_get_symbol_SomeD(1)[OF assms(1), folded assms(2)]
  {
    assume "length close = 1"
    then obtain x where "close = [x]" by (cases close) auto
    with lc show "pct snap = 0" by (simp add: last_and_change_single)
  }
  {
    assume len: "2 \<le> length close"
    from last_and_change_many[OF len] lc
    have p: "pct snap = (if close ! (length close - 2) \<noteq> 0
           then (last close / close ! (length close - 2) - 1) * 100 else 0)" by simp
    { assume "close ! (length close - 2) = 0" with p show "pct snap = 0" by simp }
    { assume "close ! (length close - 2) \<noteq> 0"
      with p show "pct snap = (last close / close ! (length close - 2) - 1) * 100" by simp }
  }
qed

theorem pct_change_spec_witness:
  "(\<exists>snap. yf_get_symbol (Frame [Some 5] None) = Some snap \<and> pct snap = 0) \<and>
   (\<exists>snap. yf_get_symbol (Frame [Some 0, Some 3] None) = Some snap \<and> pct snap = 0) \<and>
   (\<exists>snap. yf_get_symbol (Frame [Some 8, None, Some 10] None) = Some snap \<and> pct snap = 25)"
proof -
  have e1: "yf_get_symbol (Frame [Some 5] None) =
    Some \<lparr>price = 5, pct = 0, vol = None, avg5_price = None, avg5_vol = None,
           sma20 = None, sma50 = None, rsi14 = None\<rparr>"
    by code_simp
  have e2: "yf_get_symbol (Frame [Some 0, Some 3] None) =
    Some \<lparr>price = 3, pct = 0, vol = None, avg5_price = None, avg5_vol = None,
           sma20 = None, sma50 = None, rsi14 = None\<rparr>"
    by code_simp
  have e3: "yf_get_symbol (Frame [Some 8, None, Some 10] None) =
    Some \<lparr>price = 10, pct = 25, vol = None, avg5_price = None, avg5_vol = None,
           sma20 = None, sma50 = None, rsi14 = None\<rparr>"
    by code_simp
  show ?thesis
    using pct_change_spec[OF e1 refl] pct_change_spec[OF e2 refl] pct_change_spec[OF e3 refl]
    by (simp add: e1 e2 e3)
qed

text \<open>
  C8. The \<open>sma20\<close> field of a snapshot is absent for fewer than 20 closes and is the
  arithmetic mean of the last 20 closes otherwise; the closes 1, 2, ..., 20 give 10.5 and
  a 19-entry series gives no value.
\<close>

theorem sma20_spec:
  assumes "yf_get_symbol (Frame ccol vcol) = Some snap" and "close = dropna ccol"
  shows "(length close < 20 \<longrightarrow> sma20 snap = None) \<and>
         (20 \<le> length close \<longrightarrow>
            sma20 snap = Some (sum_list (drop (length close - 20) close) / 20))"
  using yf_get_symbol_SomeD(3)[OF assms(1), folded assms(2)] rolling_mean_last[of 20 close]
  by (auto split: if_splits)

theorem sma20_spec_witness:
  "(\<exists>snap. yf_get_symbol (Frame (map Some [1, 2, 3, 4, 5, 6, 7, 8, 9, 10, 11, 12, 13, 14, 15,
        16, 17, 18, 19, 20]) None) = Some snap \<and> sma20 snap = Some (21 / 2)) \<and>
   (\<exists>snap. yf_get_symbol (Frame (map Some [1, 2, 3, 4, 5, 6, 7, 8, 9, 10, 11, 12, 13, 14, 15,
        16, 17, 18, 19]) None) = Some snap \<and> sma20 snap = None)"
proof -
  have e1: "yf_get_symbol (Frame (map Some [1, 2, 3, 4, 5, 6, 7, 8, 9, 10, 11, 12, 13, 14, 15,
        16, 17, 18, 19, 20]) None) =
    Some \<lparr>price = 20, pct = 100 / 19, vol = None, avg5_price = Some 18, avg5_vol = None,
           sma20 = Some (21 / 2), sma50 = None, rsi14 = Some 100\<rparr>"
    by code_simp
  have e2: "yf_get_symbol (Frame (map Some [1, 2, 3, 4, 5, 6, 7, 8, 9, 10, 11, 12, 13, 14, 15,
        16, 17, 18, 19]) None) =
    Some \<lparr>price = 19, pct = 50 / 9, vol = None, avg5_price = Some 17, avg5_vol = None,
           sma20 = None, sma50 = None, rsi14 = Some 100\<rparr>"
    by code_simp
  show ?thesis
    using sma20_spec[OF e1 refl] sma20_spec[OF e2 refl] e1 e2
    by simp
qed

section \<open>Properties of \<open>chunk_text\<close>\<close>

lemma rfind_from_range: "rfind_from n xs = - 1 \<or> (0 \<le> rfind_from n xs \<and> rfind_from n xs < int n)"
  by (induction n) auto

lemma rfind_from_none: "(\<forall>i<n. xs ! i \<noteq> newline) \<Longrightarrow> rfind_from n xs = - 1"
  by (induction n) auto

lemma rfind_from_at:
  "k < n \<Longrightarrow> xs ! k = newline \<Longrightarrow> (\<forall>j. k < j \<and> j < n \<longrightarrow> xs ! j \<noteq> newline) \<Longrightarrow> rfind_from n xs = int k"
proof (induction n)
  case 0
  then show ?case by simp
next
  case (Suc n)
  show ?case
  proof (cases "k = n")
    case True
    with Suc.prems show ?thesis by simp
  next
    case False
    with Suc.prems have "k < n" by simp
    moreover from Suc.prems False have "xs ! n \<noteq> newline" by auto
    ultimately show ?thesis using Suc by simp
  qed
qed

lemma rfind_from_hit: "rfind_from n xs = int k \<Longrightarrow> k < n \<and> xs ! k = newline \<and> (\<forall>j. k < j \<and> j < n \<longrightarrow> xs ! j \<noteq> newline)"
proof (induction n)
  case 0
  then show ?case by simp
next
  case (Suc n)
  show ?case
  proof (cases "xs ! n = newline")
    case True
    with Suc.prems have "k = n" by simp
    with True show ?thesis by auto
  next
    case False
    with Suc.prems have "rfind_from n xs = int k" by simp
    with Suc.IH have h: "k < n \<and> xs ! k = newline \<and> (\<forall>j. k < j \<and> j < n \<longrightarrow> xs ! j \<noteq> newline)" by simp
    show ?thesis
    proof (intro conjI allI impI)
      show "k < Suc n" using h by simp
      show "xs ! k = newline" using h by simp
      fix j assume "k < j \<and> j < Suc n"
      then show "xs ! j \<noteq> newline" using h False by (cases "j = n") auto
    qed
  qed
qed

lemma chunk_loop_stuck:
  assumes "limit < length cur" and "rfind_newline cur limit = 0"
  shows "chunk_loop limit cur chunks = None"
proof (cases "chunk_loop limit cur chunks")
  case None
  then show ?thesis .
next
  case (Some y)
  have "\<not> (limit < length cur \<and> rfind_newline cur limit = 0)"
  proof (rule chunk_loop.raw_induct
      [where P = "\<lambda>l c ch y. \<not> (l < length c \<and> rfind_newline c l = 0)", OF _ Some])
    fix f l c ch r
    assume IH: "\<And>l c ch r. f l c ch = Some r \<Longrightarrow> \<not> (l < length c \<and> rfind_newline c l = 0)"
      and eq: "(if l < length c
        then let cut0 = rfind_newline c l; cut = if cut0 = - 1 then int l else cut0
             in f l (drop (nat cut) c) (ch @ [take (nat cut) c])
        else Some (if c \<noteq> [] then ch @ [c] else ch)) = Some r"
    show "\<not> (l < length c \<and> rfind_newline c l = 0)"
    proof
      assume bad: "l < length c \<and> rfind_newline c l = 0"
      with eq have "f l c (ch @ [[]]) = Some r" by simp
      from IH[OF this] bad show False by simp
    qed
  qed
  with assms show ?thesis by simp
qed

lemma chunk_loop_sound:
  assumes "chunk_loop limit cur chunks = Some y"
  shows "concat y = concat chunks @ cur \<and>
     ((\<forall>c \<in> set chunks. length c \<le> limit) \<longrightarrow> (\<forall>c \<in> set y. length c \<le> limit))"
proof (rule chunk_loop.raw_induct
      [where P = "\<lambda>l c ch y. concat y = concat ch @ c \<and>
     ((\<forall>x \<in> set ch. length x \<le> l) \<longrightarrow> (\<forall>x \<in> set y. length x \<le> l))", OF _ assms])
  fix f l c ch r
  assume IH: "\<And>l c ch r. f l c ch = Some r \<Longrightarrow> concat r = concat ch @ c \<and>
     ((\<forall>x \<in> set ch. length x \<le> l) \<longrightarrow> (\<forall>x \<in> set r. length x \<le> l))"
    and eq: "(if l < length c
        then let cut0 = rfind_newline c l; cut = if cut0 = - 1 then int l else cut0
             in f l (drop (nat cut) c) (ch @ [take (nat cut) c])
        else Some (if c \<noteq> [] then ch @ [c] else ch)) = Some r"
  show "concat r = concat ch @ c \<and>
     ((\<forall>x \<in> set ch. length x \<le> l) \<longrightarrow> (\<forall>x \<in> set r. length x \<le> l))"
  proof (cases "l < length c")
    case False
    with eq show ?thesis by (auto split: if_splits)
  next
    case True
    define cut where "cut = (if rfind_newline c l = - 1 then int l else rfind_newline c l)"
    have cut_le: "nat cut \<le> l"
      using rfind_from_range[of "min l (length c)" c]
      by (auto simp: cut_def rfind_newline_def)
    from True eq have "f l (drop (nat cut) c) (ch @ [take (nat cut) c]) = Some r"
      by (simp add: cut_def Let_def)
    from IH[OF this] cut_le show ?thesis by auto
  qed
qed

lemma chunk_text_sound:
  "chunk_text (Some s) limit = Some chunks \<Longrightarrow> concat chunks = s \<and> (\<forall>c \<in> set chunks. length c \<le> limit)"
  using chunk_loop_sound[of limit s "[]" chunks]
  by (auto simp: chunk_text_def split: if_splits)

lemma nth_nl_replicate: "0 < i \<Longrightarrow> i \<le> n \<Longrightarrow> c \<noteq> newline \<Longrightarrow> (newline # replicate n c) ! i \<noteq> newline"
  by (cases i) auto

lemma rfind_newline_leading:
  assumes "c \<noteq> newline" "0 < limit" "limit \<le> n"
  shows "rfind_newline (newline # replicate n c) limit = 0"
proof -
  have "rfind_from limit (newline # replicate n c) = int 0"
    using assms by (intro rfind_from_at) (auto simp: nth_Cons' )
  with assms show ?thesis by (simp add: rfind_newline_def min_def)
qed

lemma chunk_text_fits:
  "length s \<le> limit \<Longrightarrow> chunk_text (Some s) limit = Some [s]"
  by (simp add: chunk_text_def)

lemma chunk_text_hard_cut:
  assumes "limit < length s" "length s \<le> 2 * limit" "newline \<notin> set (take limit s)" "0 < limit"
  shows "chunk_text (Some s) limit = Some [take limit s, drop limit s]"
proof -
  have "\<forall>i<limit. s ! i \<noteq> newline"
  proof (intro allI impI)
    fix i assume "i < limit"
    with assms have "take limit s ! i \<in> set (take limit s)" by (intro nth_mem) simp
    with \<open>i < limit\<close> assms show "s ! i \<noteq> newline" by auto
  qed
  then have "rfind_from limit s = - 1" by (rule rfind_from_none)
  with assms have r: "rfind_newline s limit = - 1" by (simp add: rfind_newline_def min_def)
  have "chunk_loop limit s [] = chunk_loop limit (drop limit s) [take limit s]"
    using assms by (subst chunk_loop.simps) (simp add: r Let_def)
  also have "\<dots> = Some [take limit s, drop limit s]"
    using assms by (subst chunk_loop.simps) auto
  finally show ?thesis using assms by (simp add: chunk_text_def)
qed

lemma chunk_text_stuck_class:
  assumes "limit < length s" and "0 < limit" and "s ! 0 = newline"
    and "\<forall>i. 0 < i \<and> i < limit \<longrightarrow> s ! i \<noteq> newline"
  shows "chunk_text (Some s) limit = None"
proof -
  have "rfind_from limit s = int 0"
    using assms by (intro rfind_from_at) auto
  with assms have "rfind_newline s limit = 0" by (simp add: rfind_newline_def min_def)
  with assms have "chunk_loop limit s [] = None" by (intro chunk_loop_stuck) simp_all
  with assms show ?thesis by (simp add: chunk_text_def)
qed

lemma rfind_newline_absent:
  assumes "newline \<notin> set s"
  shows "rfind_newline s limit = - 1"
proof -
  have "\<forall>i<min limit (length s). s ! i \<noteq> newline"
    using assms by (auto simp: set_conv_nth)
  then show ?thesis unfolding rfind_newline_def by (rule rfind_from_none)
qed

lemma chunk_loop_no_newline_returns:
  assumes "0 < limit" and "newline \<notin> set cur"
  shows "\<exists>r. chunk_loop limit cur chunks = Some r"
  using assms(2)
proof (induction "length cur" arbitrary: cur chunks rule: less_induct)
  case less
  show ?case
  proof (cases "limit < length cur")
    case False
    then show ?thesis by (subst chunk_loop.simps) simp
  next
    case True
    have nl: "newline \<notin> set (drop limit cur)"
      using less.prems by (auto dest: in_set_dropD)
    have "length (drop limit cur) < length cur" using True assms(1) by simp
    from less.hyps[OF this nl] obtain r where
      "chunk_loop limit (drop limit cur) (chunks @ [take limit cur]) = Some r" by blast
    with True show ?thesis
      by (subst chunk_loop.simps) (simp add: rfind_newline_absent[OF less.prems] Let_def)
  qed
qed

lemma chunk_text_no_newline_returns:
  "0 < limit \<Longrightarrow> newline \<notin> set s \<Longrightarrow> \<exists>chunks. chunk_text (Some s) limit = Some chunks"
  using chunk_loop_no_newline_returns[of limit s "[]"] by (simp add: chunk_text_def)

text \<open>
  C3. The claim: \<open>chunk_text\<close> terminates for every input, also for a text longer than 3500
  characters whose only newline in the first 3500 characters is at index 0. The code does
  not: there \<open>rfind\<close> returns 0, the chunk \<open>cur[:0]\<close> is empty and \<open>cur[0:]\<close> is \<open>cur\<close> again, so
  the loop never returns. This holds for the whole class of such texts
  (\<open>chunk_text_stuck_class\<close>); the theorem is the instance of a newline followed by 3500
  letters \<open>a\<close>.
\<close>

theorem chunk_text_diverges_leading_newline:
  "chunk_text (Some (newline # replicate 3500 97)) 3500 = None"
proof -
  have "rfind_newline (newline # replicate 3500 97) 3500 = 0"
    by (rule rfind_newline_leading) (simp_all add: newline_def)
  then have "chunk_loop 3500 (newline # replicate 3500 97) [] = None"
    by (intro chunk_loop_stuck) simp_all
  then show ?thesis by (simp add: chunk_text_def)
qed

text \<open>
  C2. The claim: for every text, \<open>chunk_text\<close> with limit 3500 returns chunks of at most 3500
  characters, cut at the last newline within the limit or hard at the limit, whose
  concatenation is the text. Whenever the function returns, the chunks are that short and
  concatenate to the text (\<open>chunk_text_sound\<close>); it returns for every text that fits the
  limit (\<open>chunk_text_fits\<close>, the 3500-character example), for the 4000-character example
  (\<open>chunk_text_hard_cut\<close>) and for every text without a newline
  (\<open>chunk_text_no_newline_returns\<close>). But a text of a 100-character line followed by a
  3600-character line gets its first chunk cut at the newline, the rest then starts with
  that newline, and no list of chunks is ever returned.
\<close>

theorem chunk_text_no_result_after_newline_cut:
  "chunk_text (Some (replicate 100 97 @ newline # replicate 3600 98)) 3500 = None"
proof -
  let ?s = "replicate 100 97 @ newline # replicate 3600 98"
  have r1: "rfind_from 3500 ?s = int 100"
    by (rule rfind_from_at) (auto simp: nth_append nth_Cons' newline_def)
  then have r1': "rfind_newline ?s 3500 = 100" by (simp add: rfind_newline_def)
  have "rfind_newline (newline # replicate 3600 98) 3500 = 0"
    by (rule rfind_newline_leading) (simp_all add: newline_def)
  then have stuck: "chunk_loop 3500 (newline # replicate 3600 98) [replicate 100 97] = None"
    by (intro chunk_loop_stuck) simp_all
  have "chunk_loop 3500 ?s [] = chunk_loop 3500 (newline # replicate 3600 98) [replicate 100 97]"
    by (subst chunk_loop.simps) (simp add: r1' Let_def)
  with stuck show ?thesis by (simp add: chunk_text_def)
qed

section \<open>Properties of the detail line and the alerts\<close>

lemma zero_volume_frame_snapshot: "yf_get_symbol zero_volume_frame = Some zero_volume_snapshot"
  unfolding zero_volume_frame_def zero_volume_snapshot_def by code_simp

lemma vol_ratio_of_Some:
  "vol_ratio_of v a = Some r \<longleftrightarrow>
     (\<exists>x y. v = Some x \<and> a = Some y \<and> x \<noteq> 0 \<and> y \<noteq> 0 \<and> r = of_int x / of_int y)"
  by (auto simp: vol_ratio_of_def split: option.splits)

lemma vol_ratio_of_nonzero: "vol_ratio_of v a = Some r \<Longrightarrow> r \<noteq> 0"
  by (auto simp: vol_ratio_of_Some)

lemma ustr_nonempty: "s \<noteq> [] \<Longrightarrow> ustr s \<noteq> []"
  by (simp add: ustr_def)

lemma vol_ratio_s_nonempty:
  "vol_ratio_s env vr \<noteq> [] \<longleftrightarrow> (\<exists>r. vr = Some r \<and> r \<noteq> 0)"
  by (auto simp: vol_ratio_s_def ustr_def split: option.splits)

text \<open>
  C4 (as amended). In every detail line the volume-ratio suffix stands between the volume
  and the weekly average. It is non-empty if and only if the last volume and the volume
  baseline are both present and both nonzero (\<open>if vol and avgvol20\<close>), and then it shows
  their quotient; otherwise it is the empty text, and no division takes place.
\<close>

theorem vol_ratio_suffix_spec:
  "detail_line env s info fb fs =
     (s @ ustr '': '' @ (if price info \<noteq> 0 then str_float env (price info) else em_dash)
        @ ustr '' '' @ fm_pct env (Some (pct info))
        @ ustr '' | KL='' @ fm_shares_million env (vol info))
     @ vol_ratio_s env (vol_ratio_of (vol info) (avg5_vol info))
     @ (ustr '' | TB tu'' @ [0x1EA7] @ ustr ''n: ''
        @ (case avg5_price info of
             None \<Rightarrow> em_dash
           | Some a \<Rightarrow> if a \<noteq> 0 then str_float env a else em_dash)
        @ ustr '' / '' @ fm_shares_million env (avg5_vol info)
        @ ustr '' | NN: Mua '' @ fm_money_million env fb
        @ ustr '' / B'' @ [0xE1] @ ustr ''n '' @ fm_money_million env fs) \<and>
   (vol_ratio_s env (vol_ratio_of (vol info) (avg5_vol info)) \<noteq> [] \<longleftrightarrow>
     (\<exists>v a. vol info = Some v \<and> avg5_vol info = Some a \<and> v \<noteq> 0 \<and> a \<noteq> 0)) \<and>
   (vol_ratio_s env (vol_ratio_of (vol info) (avg5_vol info)) \<noteq> [] \<longrightarrow>
     vol_ratio_s env (vol_ratio_of (vol info) (avg5_vol info)) =
       ustr '' (VolRatio='' @ fmt_2f env (of_int (the (vol info)) / of_int (the (avg5_vol info)))
         @ [0xD7] @ ustr '')'')"
proof (intro conjI)
  show "detail_line env s info fb fs =
     (s @ ustr '': '' @ (if price info \<noteq> 0 then str_float env (price info) else em_dash)
        @ ustr '' '' @ fm_pct env (Some (pct info))
        @ ustr '' | KL='' @ fm_shares_million env (vol info))
     @ vol_ratio_s env (vol_ratio_of (vol info) (avg5_vol info))
     @ (ustr '' | TB tu'' @ [0x1EA7] @ ustr ''n: ''
        @ (case avg5_price info of
             None \<Rightarrow> em_dash
           | Some a \<Rightarrow> if a \<noteq> 0 then str_float env a else em_dash)
        @ ustr '' / '' @ fm_shares_million env (avg5_vol info)
        @ ustr '' | NN: Mua '' @ fm_money_million env fb
        @ ustr '' / B'' @ [0xE1] @ ustr ''n '' @ fm_money_million env fs)"
    by (simp add: detail_line_def)
  show "vol_ratio_s env (vol_ratio_of (vol info) (avg5_vol info)) \<noteq> [] \<longleftrightarrow>
     (\<exists>v a. vol info = Some v \<and> avg5_vol info = Some a \<and> v \<noteq> 0 \<and> a \<noteq> 0)"
    by (auto simp: vol_ratio_s_nonempty vol_ratio_of_Some)
  show "vol_ratio_s env (vol_ratio_of (vol info) (avg5_vol info)) \<noteq> [] \<longrightarrow>
     vol_ratio_s env (vol_ratio_of (vol info) (avg5_vol info)) =
       ustr '' (VolRatio='' @ fmt_2f env (of_int (the (vol info)) / of_int (the (avg5_vol info)))
         @ [0xD7] @ ustr '')''"
    by (auto simp: vol_ratio_s_def vol_ratio_of_def split: option.splits if_splits)
qed

theorem vol_ratio_suffix_spec_witness:
  "vol busy_snapshot = Some 2000 \<and> avg5_vol busy_snapshot = Some 1000 \<and>
   vol_ratio_s demo_env (vol_ratio_of (vol busy_snapshot) (avg5_vol busy_snapshot)) =
     ustr '' (VolRatio='' @ fmt_2f demo_env 2 @ [0xD7] @ ustr '')''"
  using vol_ratio_suffix_spec[of demo_env "[]" busy_snapshot None None]
  by (simp add: busy_snapshot_def)

text \<open>
  C4 as stated fails: for a frame of 20 sessions whose last volume is 0 the last volume
  (0) and the baseline (950) are both present and the baseline is nonzero, yet the suffix
  is empty.
\<close>

theorem vol_ratio_suffix_zero_volume_counterexample:
  "yf_get_symbol zero_volume_frame = Some zero_volume_snapshot \<and>
   vol zero_volume_snapshot = Some 0 \<and> avg5_vol zero_volume_snapshot = Some 950 \<and>
   vol_ratio_s demo_env (vol_ratio_of (vol zero_volume_snapshot) (avg5_vol zero_volume_snapshot)) = []"
  by (simp add: zero_volume_frame_snapshot)
     (simp add: zero_volume_snapshot_def vol_ratio_of_def vol_ratio_s_def)

lemma hd_surge_up_msg: "hd (surge_up_msg env s p) = 0x1F525"
  by (simp add: surge_up_msg_def)

lemma hd_surge_down_msg: "hd (surge_down_msg env s p) = 0x1F4C9"
  by (simp add: surge_down_msg_def)

lemma hd_volume_spike_msg: "hd (volume_spike_msg env s r) = 0x1F4CA"
  by (simp add: volume_spike_msg_def)

lemma alert_msgs_distinct:
  "surge_up_msg env s p \<noteq> surge_down_msg env s' p'"
  "surge_up_msg env s p \<noteq> volume_spike_msg env s' r"
  "surge_down_msg env s p \<noteq> volume_spike_msg env s' r"
proof -
  show "surge_up_msg env s p \<noteq> surge_down_msg env s' p'"
    using hd_surge_up_msg[of env s p] hd_surge_down_msg[of env s' p'] by auto
  show "surge_up_msg env s p \<noteq> volume_spike_msg env s' r"
    using hd_surge_up_msg[of env s p] hd_volume_spike_msg[of env s' r] by auto
  show "surge_down_msg env s p \<noteq> volume_spike_msg env s' r"
    using hd_surge_down_msg[of env s p] hd_volume_spike_msg[of env s' r] by auto
qed

lemma alerts_for_eq:
  "alerts_for env cfg s info =
     (if pct info \<ge> pct_alert_up cfg then [surge_up_msg env s (pct info)]
      else if pct info \<le> pct_alert_down cfg then [surge_down_msg env s (pct info)]
      else [])
     @ (if \<exists>v a. vol info = Some v \<and> avg5_vol info = Some a \<and> v \<noteq> 0 \<and> a \<noteq> 0
                \<and> of_int v / of_int a \<ge> vol_surge_mult cfg
        then [volume_spike_msg env s (of_int (the (vol info)) / of_int (the (avg5_vol info)))]
        else [])"
  by (auto simp: alerts_for_def vol_ratio_of_def split: option.splits)

text \<open>
  C6 (as amended). Per symbol: a percent change at or above the upper threshold gives
  the surge-up alert and no surge-down alert; otherwise a percent change at or below the
  lower threshold gives the surge-down alert and no surge-up alert; otherwise neither.
  Independently, the volume-spike alert is given if and only if the last volume and the
  baseline are both present and both nonzero and their quotient is at or above the
  multiplier.
\<close>

theorem alerts_for_spec:
  "(pct info \<ge> pct_alert_up cfg \<longrightarrow>
      surge_up_msg env s (pct info) \<in> set (alerts_for env cfg s info) \<and>
      (\<forall>p. surge_down_msg env s p \<notin> set (alerts_for env cfg s info))) \<and>
   (pct info < pct_alert_up cfg \<and> pct info \<le> pct_alert_down cfg \<longrightarrow>
      surge_down_msg env s (pct info) \<in> set (alerts_for env cfg s info) \<and>
      (\<forall>p. surge_up_msg env s p \<notin> set (alerts_for env cfg s info))) \<and>
   (pct info < pct_alert_up cfg \<and> pct_alert_down cfg < pct info \<longrightarrow>
      (\<forall>p. surge_up_msg env s p \<notin> set (alerts_for env cfg s info) \<and>
           surge_down_msg env s p \<notin> set (alerts_for env cfg s info))) \<and>
   ((\<exists>r. volume_spike_msg env s r \<in> set (alerts_for env cfg s info)) \<longleftrightarrow>
      (\<exists>v a. vol info = Some v \<and> avg5_vol info = Some a \<and> v \<noteq> 0 \<and> a \<noteq> 0
            \<and> of_int v / of_int a \<ge> vol_surge_mult cfg))"
  unfolding alerts_for_eq
  using alert_msgs_distinct[of env s _ s] alert_msgs_distinct(1)[of env s _ s, symmetric]
    alert_msgs_distinct(2)[of env s _ s, symmetric] alert_msgs_distinct(3)[of env s _ s, symmetric]
  by (auto split: if_splits)

theorem alerts_for_spec_witness:
  "surge_up_msg demo_env (ustr ''MBB'') 3
     \<in> set (alerts_for demo_env default_config (ustr ''MBB'') busy_snapshot) \<and>
   (\<exists>r. volume_spike_msg demo_env (ustr ''MBB'') r
     \<in> set (alerts_for demo_env default_config (ustr ''MBB'') busy_snapshot)) \<and>
   surge_down_msg demo_env (ustr ''MBB'') (- 3)
     \<in> set (alerts_for demo_env default_config (ustr ''MBB'') falling_snapshot) \<and>
   (\<forall>r. volume_spike_msg demo_env (ustr ''MBB'') r
     \<notin> set (alerts_for demo_env default_config (ustr ''MBB'') falling_snapshot)) \<and>
   (\<forall>p. surge_up_msg demo_env (ustr ''MBB'') p
     \<notin> set (alerts_for demo_env default_config (ustr ''MBB'') zero_volume_snapshot))"
  using alerts_for_spec[where info = busy_snapshot and cfg = default_config and env = demo_env
      and s = "ustr ''MBB''"]
    alerts_for_spec[where info = falling_snapshot and cfg = default_config and env = demo_env
      and s = "ustr ''MBB''"]
    alerts_for_spec[where info = zero_volume_snapshot and cfg = default_config and env = demo_env
      and s = "ustr ''MBB''"]
  by (simp add: busy_snapshot_def falling_snapshot_def zero_volume_snapshot_def default_config_def)

text \<open>
  C6 as stated fails: with the multiplier configured as 0, a last volume of 0 and a
  baseline of 950 are both present and their ratio 0 reaches the multiplier, yet there is
  no volume-spike alert.
\<close>

theorem volume_spike_zero_volume_counterexample:
  "vol zero_volume_snapshot = Some 0 \<and> avg5_vol zero_volume_snapshot = Some 950 \<and>
   vol_surge_mult zero_mult_config \<le> of_int 0 / of_int 950 \<and>
   alerts_for demo_env zero_mult_config (ustr ''MBB'') zero_volume_snapshot = []"
  by (simp add: zero_volume_snapshot_def zero_mult_config_def default_config_def alerts_for_def
        vol_ratio_of_def)

section \<open>Properties of \<open>build_report\<close>\<close>

lemma is_debug_dbg: "is_debug (dbg m)"
  by (simp add: dbg_def ustr_def)

lemma is_fetch_dbg: "\<not> is_fetch (dbg m)"
  by (simp add: dbg_def)

lemma fetch_count_append: "fetch_count (tr @ ext) = fetch_count tr + fetch_count ext"
  by (simp add: fetch_count_def)

lemma call_yf_get_symbol_fst:
  "fst (call_yf_get_symbol env s tr) =
     yf_get_symbol (history env (fetch_count tr) (s @ ustr ''.VN'') (ustr ''60d''))"
  by (simp add: call_yf_get_symbol_def Let_def split: option.splits)

lemma call_yf_get_symbol_snd:
  "\<exists>ext. snd (call_yf_get_symbol env s tr) = tr @ SymbolFetch s # ext
        \<and> filter is_fetch ext = [] \<and> (\<forall>e \<in> set ext. is_debug e)"
  by (simp add: call_yf_get_symbol_def Let_def is_debug_dbg is_fetch_dbg split: option.splits)

lemma call_yf_get_index_snd:
  "\<exists>ext. snd (call_yf_get_index env t tr) = tr @ IndexFetch t # ext
        \<and> filter is_fetch ext = [] \<and> (\<forall>e \<in> set ext. is_debug e)"
  by (simp add: call_yf_get_index_def Let_def is_debug_dbg is_fetch_dbg split: option.splits prod.splits)

lemma call_yf_get_index_fst:
  "fst (call_yf_get_index env t tr) \<noteq> Some (l, None)"
  by (simp add: call_yf_get_index_def Let_def split: option.splits prod.splits)

lemma detail_loop_result:
  "\<exists>ext. detail_loop env cfg syms lines tr =
           (lines @ map (\<lambda>j. symbol_line env cfg (syms ! j)
                             (yf_get_symbol (history env (fetch_count tr + j)
                                               (syms ! j @ ustr ''.VN'') (ustr ''60d''))))
                        [0..<length syms],
            tr @ ext)
        \<and> filter is_fetch ext = map SymbolFetch syms
        \<and> (\<forall>e \<in> set ext. is_fetch e \<or> is_debug e)"
proof (induction syms arbitrary: lines tr)
  case Nil
  then show ?case by simp
next
  case (Cons s ss)
  obtain info tr1 where c: "call_yf_get_symbol env s tr = (info, tr1)"
    by (cases "call_yf_get_symbol env s tr")
  from call_yf_get_symbol_fst[of env s tr] c
  have info: "info = yf_get_symbol (history env (fetch_count tr) (s @ ustr ''.VN'') (ustr ''60d''))"
    by simp
  from call_yf_get_symbol_snd[of env s tr] c obtain e1 where
    e1: "tr1 = tr @ SymbolFetch s # e1" "filter is_fetch e1 = []" "\<forall>e \<in> set e1. is_debug e"
    by auto
  have fc: "fetch_count tr1 = Suc (fetch_count tr)"
    using e1 by (simp add: fetch_count_def)
  from Cons.IH[of "lines @ [symbol_line env cfg s info]" tr1] obtain e2 where
    e2: "detail_loop env cfg ss (lines @ [symbol_line env cfg s info]) tr1 =
           ((lines @ [symbol_line env cfg s info]) @
              map (\<lambda>j. symbol_line env cfg (ss ! j)
                     (yf_get_symbol (history env (fetch_count tr1 + j)
                                               (ss ! j @ ustr ''.VN'') (ustr ''60d''))))
                  [0..<length ss],
            tr1 @ e2)"
      "filter is_fetch e2 = map SymbolFetch ss" "\<forall>e \<in> set e2. is_fetch e \<or> is_debug e"
    by blast
  let ?ext = "SymbolFetch s # e1 @ e2"
  have "detail_loop env cfg (s # ss) lines tr =
           (lines @ map (\<lambda>j. symbol_line env cfg ((s # ss) ! j)
                             (yf_get_symbol (history env (fetch_count tr + j)
                                               ((s # ss) ! j @ ustr ''.VN'') (ustr ''60d''))))
                        [0..<length (s # ss)],
            tr @ ?ext)"
    using c e2(1) e1(1) info fc by (simp add: map_upt_Suc del: upt_Suc)
  moreover have "filter is_fetch ?ext = map SymbolFetch (s # ss)"
    using e1 e2 by simp
  moreover have "\<forall>e \<in> set ?ext. is_fetch e \<or> is_debug e"
    using e1 e2 by auto
  ultimately show ?case by blast
qed

lemma alerts_loop_result:
  "\<exists>ext. alerts_loop env cfg syms alerts tr =
           (alerts @ concat (map (\<lambda>j. symbol_alerts env cfg (syms ! j)
                                     (yf_get_symbol (history env (fetch_count tr + j)
                                              (syms ! j @ ustr ''.VN'') (ustr ''60d''))))
                                 [0..<length syms]),
            tr @ ext)
        \<and> filter is_fetch ext = map SymbolFetch syms
        \<and> (\<forall>e \<in> set ext. is_fetch e \<or> is_debug e)"
proof (induction syms arbitrary: alerts tr)
  case Nil
  then show ?case by simp
next
  case (Cons s ss)
  obtain info tr1 where c: "call_yf_get_symbol env s tr = (info, tr1)"
    by (cases "call_yf_get_symbol env s tr")
  from call_yf_get_symbol_fst[of env s tr] c
  have info: "info = yf_get_symbol (history env (fetch_count tr) (s @ ustr ''.VN'') (ustr ''60d''))"
    by simp
  from call_yf_get_symbol_snd[of env s tr] c obtain e1 where
    e1: "tr1 = tr @ SymbolFetch s # e1" "filter is_fetch e1 = []" "\<forall>e \<in> set e1. is_debug e"
    by auto
  have fc: "fetch_count tr1 = Suc (fetch_count tr)"
    using e1 by (simp add: fetch_count_def)
  from Cons.IH[of "alerts @ symbol_alerts env cfg s info" tr1] obtain e2 where
    e2: "alerts_loop env cfg ss (alerts @ symbol_alerts env cfg s info) tr1 =
           ((alerts @ symbol_alerts env cfg s info)
              @ concat (map (\<lambda>j. symbol_alerts env cfg (ss ! j)
                                     (yf_get_symbol (history env (fetch_count tr1 + j)
                                              (ss ! j @ ustr ''.VN'') (ustr ''60d''))))
                                 [0..<length ss]),
            tr1 @ e2)"
      "filter is_fetch e2 = map SymbolFetch ss" "\<forall>e \<in> set e2. is_fetch e \<or> is_debug e"
    by blast
  let ?ext = "SymbolFetch s # e1 @ e2"
  have "alerts_loop env cfg (s # ss) alerts tr =
           (alerts @ concat (map (\<lambda>j. symbol_alerts env cfg ((s # ss) ! j)
                                     (yf_get_symbol (history env (fetch_count tr + j)
                                              ((s # ss) ! j @ ustr ''.VN'') (ustr ''60d''))))
                                 [0..<length (s # ss)]),
            tr @ ?ext)"
    using c e2(1) e1(1) fc info by (simp add: map_upt_Suc del: upt_Suc)
  moreover have "filter is_fetch ?ext = map SymbolFetch (s # ss)"
    using e1 e2 by simp
  moreover have "\<forall>e \<in> set ?ext. is_fetch e \<or> is_debug e"
    using e1 e2 by auto
  ultimately show ?case by blast
qed

lemma index_line_None: "index_line env idx = None \<longleftrightarrow> (\<exists>l. idx = Some (l, None))"
  by (auto simp: index_line_def split: option.splits)

lemma index_stage:
  assumes "(case (if vns_enabled cfg then vn_index env else None) of
               Some i \<Rightarrow> (Some i, tr0)
             | None \<Rightarrow> call_yf_get_index env (ustr ''^VNINDEX'') tr0) = (idx_info, tr1)"
  shows "\<exists>e0. tr1 = tr0 @ index_fetches env cfg @ e0 \<and> filter is_fetch e0 = []
            \<and> (\<forall>e \<in> set e0. is_debug e)"
    and "index_line env idx_info = None \<longleftrightarrow> vns_enabled cfg \<and> (\<exists>l. vn_index env = Some (l, None))"
proof -
  show "\<exists>e0. tr1 = tr0 @ index_fetches env cfg @ e0 \<and> filter is_fetch e0 = []
            \<and> (\<forall>e \<in> set e0. is_debug e)"
  proof (cases "vns_enabled cfg \<and> vn_index env \<noteq> None")
    case True
    with assms have "tr1 = tr0" by (auto split: option.splits)
    with True show ?thesis by (simp add: index_fetches_def)
  next
    case False
    with assms have "call_yf_get_index env (ustr ''^VNINDEX'') tr0 = (idx_info, tr1)"
      by (auto split: option.splits if_splits)
    with call_yf_get_index_snd[of env "ustr ''^VNINDEX''" tr0] False
    show ?thesis by (auto simp: index_fetches_def)
  qed
  show "index_line env idx_info = None \<longleftrightarrow> vns_enabled cfg \<and> (\<exists>l. vn_index env = Some (l, None))"
  proof (cases "vns_enabled cfg \<and> vn_index env \<noteq> None")
    case True
    with assms have "idx_info = vn_index env" by (auto split: option.splits)
    with True show ?thesis by (auto simp: index_line_None)
  next
    case False
    with assms have "call_yf_get_index env (ustr ''^VNINDEX'') tr0 = (idx_info, tr1)"
      by (auto split: option.splits if_splits)
    with call_yf_get_index_fst[of env "ustr ''^VNINDEX''" tr0] False
    show ?thesis by (auto simp: index_line_None)
  qed
qed

lemma report_lines_aborts:
  "fst (report_lines env cfg tr0) = None \<longleftrightarrow>
     vns_enabled cfg \<and> (\<exists>l. vn_index env = Some (l, None))"
proof -
  obtain idx_info tr1 where st:
    "(case (if vns_enabled cfg then vn_index env else None) of
               Some i \<Rightarrow> (Some i, tr0)
             | None \<Rightarrow> call_yf_get_index env (ustr ''^VNINDEX'') tr0) = (idx_info, tr1)"
    by (cases "(case (if vns_enabled cfg then vn_index env else None) of
               Some i \<Rightarrow> (Some i, tr0)
             | None \<Rightarrow> call_yf_get_index env (ustr ''^VNINDEX'') tr0)")
  have "fst (report_lines env cfg tr0) = None \<longleftrightarrow> index_line env idx_info = None"
    unfolding report_lines_def Let_def st
    by (simp split: option.splits prod.splits)
  with index_stage(2)[OF st] show ?thesis by simp
qed

lemma report_lines_result:
  assumes "report_lines env cfg tr0 = (Some lines, tr)"
  shows "\<exists>il alerts ext.
           lines = [header_line env, il,
                    foreign_market_line env (if vns_enabled cfg then try_vn_foreign env None else None),
                    [], detail_header]
                   @ map (\<lambda>j. symbol_line env cfg (SYMBOLS ! j)
                             (yf_get_symbol (history env
                                 (fetch_count tr0 + length (index_fetches env cfg) + j)
                                 (SYMBOLS ! j @ ustr ''.VN'') (ustr ''60d''))))
                         [0..<length SYMBOLS]
                   @ [[], alerts_header]
                   @ (if alerts \<noteq> [] then alerts else [no_alerts_line])
                   @ [[], footer_line env]
         \<and> alerts = concat (map (\<lambda>j. symbol_alerts env cfg (SYMBOLS ! j)
                               (yf_get_symbol (history env
                                 (fetch_count tr0 + length (index_fetches env cfg) + length SYMBOLS + j)
                                 (SYMBOLS ! j @ ustr ''.VN'') (ustr ''60d''))))
                           [0..<length SYMBOLS])
         \<and> tr = tr0 @ ext
         \<and> filter is_fetch ext = index_fetches env cfg @ map SymbolFetch SYMBOLS @ map SymbolFetch SYMBOLS
         \<and> (\<forall>e \<in> set ext. is_fetch e \<or> is_debug e)"
proof -
  obtain idx_info tr1 where st:
    "(case (if vns_enabled cfg then vn_index env else None) of
               Some i \<Rightarrow> (Some i, tr0)
             | None \<Rightarrow> call_yf_get_index env (ustr ''^VNINDEX'') tr0) = (idx_info, tr1)"
    by (cases "(case (if vns_enabled cfg then vn_index env else None) of
               Some i \<Rightarrow> (Some i, tr0)
             | None \<Rightarrow> call_yf_get_index env (ustr ''^VNINDEX'') tr0)")
  from index_stage(1)[OF st] obtain e0 where
    e0: "tr1 = tr0 @ index_fetches env cfg @ e0" "filter is_fetch e0 = []" "\<forall>e \<in> set e0. is_debug e"
    by blast
  have fc1: "fetch_count tr1 = fetch_count tr0 + length (index_fetches env cfg)"
    using e0 by (simp add: fetch_count_def index_fetches_def)
  obtain il where il: "index_line env idx_info = Some il"
    using assms unfolding report_lines_def Let_def st
    by (cases "index_line env idx_info") auto
  define lines1 where "lines1 = [header_line env, il,
      foreign_market_line env (if vns_enabled cfg then try_vn_foreign env None else None),
      [], detail_header]"
  define details where "details = map (\<lambda>j. symbol_line env cfg (SYMBOLS ! j)
                             (yf_get_symbol (history env (fetch_count tr1 + j)
                                 (SYMBOLS ! j @ ustr ''.VN'') (ustr ''60d''))))
                         [0..<length SYMBOLS]"
  from detail_loop_result[of env cfg SYMBOLS lines1 tr1] obtain e1 where
    e1: "detail_loop env cfg SYMBOLS lines1 tr1 = (lines1 @ details, tr1 @ e1)"
      "filter is_fetch e1 = map SymbolFetch SYMBOLS" "\<forall>e \<in> set e1. is_fetch e \<or> is_debug e"
    unfolding details_def by blast
  have fc2: "fetch_count (tr1 @ e1) = fetch_count tr1 + length SYMBOLS"
    using e1(2) by (simp add: fetch_count_def)
  define alerts where "alerts = concat (map (\<lambda>j. symbol_alerts env cfg (SYMBOLS ! j)
                               (yf_get_symbol (history env
                                 (fetch_count (tr1 @ e1) + j)
                                 (SYMBOLS ! j @ ustr ''.VN'') (ustr ''60d''))))
                           [0..<length SYMBOLS])"
  from alerts_loop_result[of env cfg SYMBOLS "[]" "tr1 @ e1"] obtain e2 where
    e2: "alerts_loop env cfg SYMBOLS [] (tr1 @ e1) = (alerts, (tr1 @ e1) @ e2)"
      "filter is_fetch e2 = map SymbolFetch SYMBOLS"
      "\<forall>e \<in> set e2. is_fetch e \<or> is_debug e"
    unfolding alerts_def by auto
  have res: "report_lines env cfg tr0 =
      (Some ((lines1 @ details) @ [[], alerts_header]
             @ (if alerts \<noteq> [] then alerts else [no_alerts_line]) @ [[], footer_line env]),
       (tr1 @ e1) @ e2)"
    unfolding report_lines_def Let_def st
    by (simp add: il lines1_def[symmetric] e1(1) e2(1))
  let ?ext = "index_fetches env cfg @ e0 @ e1 @ e2"
  from res assms have "lines = lines1 @ details @ [[], alerts_header]
             @ (if alerts \<noteq> [] then alerts else [no_alerts_line]) @ [[], footer_line env]"
    and "tr = (tr1 @ e1) @ e2" by simp_all
  moreover have "(tr1 @ e1) @ e2 = tr0 @ ?ext" using e0 by simp
  moreover have "filter is_fetch ?ext =
      index_fetches env cfg @ map SymbolFetch SYMBOLS @ map SymbolFetch SYMBOLS"
    using e0 e1 e2 by (simp add: index_fetches_def)
  moreover have "\<forall>e \<in> set ?ext. is_fetch e \<or> is_debug e"
    using e0 e1 e2 by (auto simp: index_fetches_def)
  moreover have "alerts = concat (map (\<lambda>j. symbol_alerts env cfg (SYMBOLS ! j)
                               (yf_get_symbol (history env
                                 (fetch_count tr0 + length (index_fetches env cfg) + length SYMBOLS + j)
                                 (SYMBOLS ! j @ ustr ''.VN'') (ustr ''60d''))))
                           [0..<length SYMBOLS])"
    unfolding alerts_def fc2 fc1 by (rule refl)
  moreover have "lines1 @ details = [header_line env, il,
                    foreign_market_line env (if vns_enabled cfg then try_vn_foreign env None else None),
                    [], detail_header]
                   @ map (\<lambda>j. symbol_line env cfg (SYMBOLS ! j)
                             (yf_get_symbol (history env
                                 (fetch_count tr0 + length (index_fetches env cfg) + j)
                                 (SYMBOLS ! j @ ustr ''.VN'') (ustr ''60d''))))
                         [0..<length SYMBOLS]"
    unfolding lines1_def details_def fc1 by (rule refl)
  ultimately show ?thesis
    by (intro exI[of _ il] exI[of _ alerts] exI[of _ ?ext] conjI) simp_all
qed

lemma build_report_Some:
  "build_report env cfg tr0 = (Some report, tr) \<longleftrightarrow>
     (\<exists>lines. report_lines env cfg tr0 = (Some lines, tr) \<and> report = join_lines lines)"
  by (cases "report_lines env cfg tr0") (auto simp: build_report_def)

lemma build_report_aborts:
  "fst (build_report env cfg tr0) = None \<longleftrightarrow>
     vns_enabled cfg \<and> (\<exists>l. vn_index env = Some (l, None))"
  using report_lines_aborts[of env cfg tr0]
  by (cases "report_lines env cfg tr0") (auto simp: build_report_def)

lemma yf_get_symbol_failed:
  "yf_get_symbol ProviderRaises = None" "yf_get_symbol NoFrame = None"
  "yf_get_symbol (Frame [] vcol) = None"
  by (simp_all add: yf_get_symbol_def)

lemma symbol_line_None: "symbol_line env cfg s None = placeholder_line s"
  by (simp add: symbol_line_def split: prod.splits)

lemma report_lines_details:
  assumes "report_lines env cfg tr0 = (Some lines, tr)" and "j < length SYMBOLS"
  shows "lines ! (5 + j) =
           symbol_line env cfg (SYMBOLS ! j)
             (yf_get_symbol (history env (fetch_count tr0 + length (index_fetches env cfg) + j)
                (SYMBOLS ! j @ ustr ''.VN'') (ustr ''60d'')))"
proof -
  from report_lines_result[OF assms(1)] obtain il rest where
    l: "lines = [header_line env, il,
                    foreign_market_line env (if vns_enabled cfg then try_vn_foreign env None else None),
                    [], detail_header]
                   @ map (\<lambda>j. symbol_line env cfg (SYMBOLS ! j)
                             (yf_get_symbol (history env
                                 (fetch_count tr0 + length (index_fetches env cfg) + j)
                                 (SYMBOLS ! j @ ustr ''.VN'') (ustr ''60d''))))
                         [0..<length SYMBOLS]
                   @ rest"
    by blast
  show ?thesis
    unfolding l using assms(2) by (simp add: nth_append)
qed

lemma join_lines_Cons: "ls \<noteq> [] \<Longrightarrow> join_lines (l # ls) = l @ [newline] @ join_lines ls"
  by (cases ls) simp_all

lemma join_lines_append:
  "xs \<noteq> [] \<Longrightarrow> ys \<noteq> [] \<Longrightarrow> join_lines (xs @ ys) = join_lines xs @ [newline] @ join_lines ys"
proof (induction xs)
  case Nil
  then show ?case by simp
next
  case (Cons x xs)
  show ?case
  proof (cases "xs = []")
    case True
    with Cons.prems show ?thesis by (simp add: join_lines_Cons)
  next
    case False
    with Cons show ?thesis by (simp add: join_lines_Cons)
  qed
qed

lemma join_lines_nth:
  assumes "0 < i" and "Suc i < length ls"
  shows "join_lines ls =
           join_lines (take i ls) @ [newline] @ ls ! i @ [newline] @ join_lines (drop (Suc i) ls)"
proof -
  have i: "i < length ls" using assms by simp
  have split: "ls = take i ls @ (ls ! i # drop (Suc i) ls)"
    using i by (simp add: id_take_nth_drop[symmetric])
  have t: "take i ls \<noteq> []" using assms by auto
  have d: "drop (Suc i) ls \<noteq> []" using assms by simp
  have "join_lines ls = join_lines (take i ls @ (ls ! i # drop (Suc i) ls))"
    using split by simp
  also have "\<dots> = join_lines (take i ls) @ [newline] @ join_lines (ls ! i # drop (Suc i) ls)"
    using t by (intro join_lines_append) simp_all
  also have "join_lines (ls ! i # drop (Suc i) ls) = ls ! i @ [newline] @ join_lines (drop (Suc i) ls)"
    using d by (rule join_lines_Cons)
  finally show ?thesis .
qed

lemma join_lines_snoc: "ls \<noteq> [] \<Longrightarrow> join_lines (ls @ [l]) = join_lines ls @ [newline] @ l"
  using join_lines_append[of ls "[l]"] by simp

lemma report_lines_length:
  assumes "report_lines env cfg tr0 = (Some lines, tr)"
  shows "5 + length SYMBOLS + 5 \<le> length lines"
    and "\<exists>front. front \<noteq> [] \<and> lines = front @ [footer_line env]"
proof -
  from report_lines_result[OF assms] obtain il alerts where
    l: "lines = [header_line env, il,
                    foreign_market_line env (if vns_enabled cfg then try_vn_foreign env None else None),
                    [], detail_header]
                   @ map (\<lambda>j. symbol_line env cfg (SYMBOLS ! j)
                             (yf_get_symbol (history env
                                 (fetch_count tr0 + length (index_fetches env cfg) + j)
                                 (SYMBOLS ! j @ ustr ''.VN'') (ustr ''60d''))))
                         [0..<length SYMBOLS]
                   @ [[], alerts_header]
                   @ (if alerts \<noteq> [] then alerts else [no_alerts_line])
                   @ [[], footer_line env]"
    by blast
  have "1 \<le> length (if alerts \<noteq> [] then alerts else [no_alerts_line])"
    by (cases alerts) auto
  then show "5 + length SYMBOLS + 5 \<le> length lines"
    unfolding l by simp
  show "\<exists>front. front \<noteq> [] \<and> lines = front @ [footer_line env]"
    unfolding l
    by (rule exI[of _ "[header_line env, il,
                    foreign_market_line env (if vns_enabled cfg then try_vn_foreign env None else None),
                    [], detail_header]
                   @ map (\<lambda>j. symbol_line env cfg (SYMBOLS ! j)
                             (yf_get_symbol (history env
                                 (fetch_count tr0 + length (index_fetches env cfg) + j)
                                 (SYMBOLS ! j @ ustr ''.VN'') (ustr ''60d''))))
                         [0..<length SYMBOLS]
                   @ [[], alerts_header]
                   @ (if alerts \<noteq> [] then alerts else [no_alerts_line])
                   @ [[]]"]) simp
qed

lemma symbol_line_names_symbol: "\<exists>rest. symbol_line env cfg s info = s @ ustr '': '' @ rest"
  by (cases info) (auto simp: symbol_line_def placeholder_line_def detail_line_def split: prod.splits)

text \<open>
  C9. A fetch that fails (the provider raises, returns nothing, or returns an empty
  frame) makes \<open>yf_get_symbol\<close> return \<open>None\<close>. \<open>build_report\<close> is aborted only by the index
  value of \<open>vnstock\<close> lacking its percent change, never by a symbol's fetch. When it
  returns, the report text runs to the footer line, and for every watchlist symbol it
  contains, between two newlines, that symbol's line: the line starts with the symbol
  and a colon, it is computed from the symbol's own fetch alone, and when that fetch
  returned \<open>None\<close> it is the symbol, a colon and the placeholder text.
\<close>

theorem failed_fetch_placeholder:
  "yf_get_symbol ProviderRaises = None \<and> yf_get_symbol NoFrame = None \<and>
   yf_get_symbol (Frame [] vcol) = None \<and>
   (fst (build_report env cfg tr0) = None \<longleftrightarrow>
      vns_enabled cfg \<and> (\<exists>l. vn_index env = Some (l, None))) \<and>
   (\<forall>report tr. build_report env cfg tr0 = (Some report, tr) \<longrightarrow>
      (\<exists>lines. report_lines env cfg tr0 = (Some lines, tr) \<and>
         (\<exists>front. report = front @ [newline] @ ustr ''(Th'' @ [0x1EDD] @ ustr ''i gian b'' @ [0xE1]
                        @ ustr ''o c'' @ [0xE1] @ ustr ''o: '' @ now env @ ustr '') - Bot_fixed'') \<and>
         (\<forall>j < length SYMBOLS.
            report = join_lines (take (5 + j) lines) @ [newline] @ lines ! (5 + j) @ [newline]
                       @ join_lines (drop (6 + j) lines) \<and>
            lines ! (5 + j) =
              symbol_line env cfg (SYMBOLS ! j)
                (yf_get_symbol (history env
                   (fetch_count tr0 + (if vns_enabled cfg \<and> vn_index env \<noteq> None then 0 else 1) + j)
                   (SYMBOLS ! j @ ustr ''.VN'') (ustr ''60d''))) \<and>
            (\<exists>rest. lines ! (5 + j) = SYMBOLS ! j @ ustr '': '' @ rest) \<and>
            (yf_get_symbol (history env
                   (fetch_count tr0 + (if vns_enabled cfg \<and> vn_index env \<noteq> None then 0 else 1) + j)
                   (SYMBOLS ! j @ ustr ''.VN'') (ustr ''60d'')) = None
               \<longrightarrow> lines ! (5 + j) =
                     SYMBOLS ! j @ ustr '': '' @ [0x2014] @ ustr '' (l'' @ [0x1ED7] @ ustr ''i d''
                       @ [0x1EEF] @ ustr '' li'' @ [0x1EC7] @ ustr ''u)''))))"
proof -
  have len: "length (index_fetches env cfg) = (if vns_enabled cfg \<and> vn_index env \<noteq> None then 0 else 1)"
    by (simp add: index_fetches_def)
  have part: "\<exists>lines. report_lines env cfg tr0 = (Some lines, tr) \<and>
         (\<exists>front. report = front @ [newline] @ ustr ''(Th'' @ [0x1EDD] @ ustr ''i gian b'' @ [0xE1]
                        @ ustr ''o c'' @ [0xE1] @ ustr ''o: '' @ now env @ ustr '') - Bot_fixed'') \<and>
         (\<forall>j < length SYMBOLS.
            report = join_lines (take (5 + j) lines) @ [newline] @ lines ! (5 + j) @ [newline]
                       @ join_lines (drop (6 + j) lines) \<and>
            lines ! (5 + j) =
              symbol_line env cfg (SYMBOLS ! j)
                (yf_get_symbol (history env
                   (fetch_count tr0 + (if vns_enabled cfg \<and> vn_index env \<noteq> None then 0 else 1) + j)
                   (SYMBOLS ! j @ ustr ''.VN'') (ustr ''60d''))) \<and>
            (\<exists>rest. lines ! (5 + j) = SYMBOLS ! j @ ustr '': '' @ rest) \<and>
            (yf_get_symbol (history env
                   (fetch_count tr0 + (if vns_enabled cfg \<and> vn_index env \<noteq> None then 0 else 1) + j)
                   (SYMBOLS ! j @ ustr ''.VN'') (ustr ''60d'')) = None
               \<longrightarrow> lines ! (5 + j) =
                     SYMBOLS ! j @ ustr '': '' @ [0x2014] @ ustr '' (l'' @ [0x1ED7] @ ustr ''i d''
                       @ [0x1EEF] @ ustr '' li'' @ [0x1EC7] @ ustr ''u)''))"
    if b: "build_report env cfg tr0 = (Some report, tr)" for report tr
  proof -
    from b obtain lines where rl: "report_lines env cfg tr0 = (Some lines, tr)"
      and rep: "report = join_lines lines"
      by (auto simp: build_report_Some)
    from report_lines_length(2)[OF rl] obtain front where
      fr: "front \<noteq> []" "lines = front @ [footer_line env]" by blast
    have foot: "report = join_lines front @ [newline] @ ustr ''(Th'' @ [0x1EDD] @ ustr ''i gian b''
                   @ [0xE1] @ ustr ''o c'' @ [0xE1] @ ustr ''o: '' @ now env @ ustr '') - Bot_fixed''"
      unfolding rep fr(2) using fr(1) by (simp add: join_lines_snoc footer_line_def)
    have each: "report = join_lines (take (5 + j) lines) @ [newline] @ lines ! (5 + j) @ [newline]
                       @ join_lines (drop (6 + j) lines) \<and>
            lines ! (5 + j) =
              symbol_line env cfg (SYMBOLS ! j)
                (yf_get_symbol (history env
                   (fetch_count tr0 + (if vns_enabled cfg \<and> vn_index env \<noteq> None then 0 else 1) + j)
                   (SYMBOLS ! j @ ustr ''.VN'') (ustr ''60d''))) \<and>
            (\<exists>rest. lines ! (5 + j) = SYMBOLS ! j @ ustr '': '' @ rest) \<and>
            (yf_get_symbol (history env
                   (fetch_count tr0 + (if vns_enabled cfg \<and> vn_index env \<noteq> None then 0 else 1) + j)
                   (SYMBOLS ! j @ ustr ''.VN'') (ustr ''60d'')) = None
               \<longrightarrow> lines ! (5 + j) =
                     SYMBOLS ! j @ ustr '': '' @ [0x2014] @ ustr '' (l'' @ [0x1ED7] @ ustr ''i d''
                       @ [0x1EEF] @ ustr '' li'' @ [0x1EC7] @ ustr ''u)'')"
      if j: "j < length SYMBOLS" for j
    proof -
      have pos: "0 < 5 + j" "Suc (5 + j) < length lines"
        using report_lines_length(1)[OF rl] j by simp_all
      have c: "report = join_lines (take (5 + j) lines) @ [newline] @ lines ! (5 + j) @ [newline]
                       @ join_lines (drop (6 + j) lines)"
        unfolding rep using join_lines_nth[OF pos] by simp
      have d: "lines ! (5 + j) =
              symbol_line env cfg (SYMBOLS ! j)
                (yf_get_symbol (history env
                   (fetch_count tr0 + (if vns_enabled cfg \<and> vn_index env \<noteq> None then 0 else 1) + j)
                   (SYMBOLS ! j @ ustr ''.VN'') (ustr ''60d'')))"
        using report_lines_details[OF rl j] unfolding len .
      have n: "\<exists>rest. lines ! (5 + j) = SYMBOLS ! j @ ustr '': '' @ rest"
        unfolding d by (rule symbol_line_names_symbol)
      have p: "lines ! (5 + j) =
                     SYMBOLS ! j @ ustr '': '' @ [0x2014] @ ustr '' (l'' @ [0x1ED7] @ ustr ''i d''
                       @ [0x1EEF] @ ustr '' li'' @ [0x1EC7] @ ustr ''u)''"
        if "yf_get_symbol (history env
                   (fetch_count tr0 + (if vns_enabled cfg \<and> vn_index env \<noteq> None then 0 else 1) + j)
                   (SYMBOLS ! j @ ustr ''.VN'') (ustr ''60d'')) = None"
        using d that by (simp add: symbol_line_None placeholder_line_def)
      from c d n p show ?thesis by blast
    qed
    from rl foot each show ?thesis by blast
  qed
  from yf_get_symbol_failed(1,2) yf_get_symbol_failed(3)[of vcol]
    build_report_aborts[of env cfg tr0] part
  show ?thesis by blast
qed

lemma default_config_no_vns: "\<not> vns_enabled default_config"
  by (simp add: vns_enabled_def default_config_def)

lemma flaky_history:
  "history flaky_env n (ustr ''MBB'' @ ustr ''.VN'') p = ProviderRaises"
  "history flaky_env n (ustr ''HPG'' @ ustr ''.VN'') p = Frame [Some 10, Some 11] None"
  by (simp_all add: flaky_env_def ustr_def)

lemma two_close_snapshot:
  "yf_get_symbol (Frame [Some 10, Some 11] None) =
     Some \<lparr>price = 11, pct = 10, vol = None, avg5_price = None, avg5_vol = None,
           sma20 = None, sma50 = None, rsi14 = None\<rparr>"
  by code_simp

theorem failed_fetch_placeholder_witness:
  "\<exists>report tr pre post pre' post'.
      build_report flaky_env default_config [] = (Some report, tr) \<and>
      report = pre @ [newline] @ ustr ''MBB: '' @ [0x2014] @ ustr '' (l'' @ [0x1ED7] @ ustr ''i d''
                 @ [0x1EEF] @ ustr '' li'' @ [0x1EC7] @ ustr ''u)'' @ [newline] @ post \<and>
      report = pre' @ [newline] @ ustr ''HPG: #.# +#.##% | KL='' @ [0x2014] @ ustr '' | TB tu''
                 @ [0x1EA7] @ ustr ''n: '' @ [0x2014] @ ustr '' / '' @ [0x2014] @ ustr '' | NN: Mua ''
                 @ [0x2014] @ ustr '' / B'' @ [0xE1] @ ustr ''n '' @ [0x2014] @ [newline] @ post'"
proof -
  note t = failed_fetch_placeholder[of _ flaky_env default_config "[]"]
  from t default_config_no_vns have "fst (build_report flaky_env default_config []) \<noteq> None"
    by blast
  then obtain report tr where b: "build_report flaky_env default_config [] = (Some report, tr)"
    by (cases "build_report flaky_env default_config []") auto
  have s: "length SYMBOLS = 6" "SYMBOLS ! 0 = ustr ''MBB''" "SYMBOLS ! Suc 0 = ustr ''HPG''"
    by (simp_all add: SYMBOLS_def)
  have lt: "0 < length SYMBOLS" "1 < length SYMBOLS" by (simp_all add: s)
  from t b obtain lines where a: "\<forall>j < length SYMBOLS.
            report = join_lines (take (5 + j) lines) @ [newline] @ lines ! (5 + j) @ [newline]
                       @ join_lines (drop (6 + j) lines) \<and>
            lines ! (5 + j) =
              symbol_line flaky_env default_config (SYMBOLS ! j)
                (yf_get_symbol (history flaky_env
                   (fetch_count [] + (if vns_enabled default_config \<and> vn_index flaky_env \<noteq> None then 0 else 1) + j)
                   (SYMBOLS ! j @ ustr ''.VN'') (ustr ''60d''))) \<and>
            (\<exists>rest. lines ! (5 + j) = SYMBOLS ! j @ ustr '': '' @ rest) \<and>
            (yf_get_symbol (history flaky_env
                   (fetch_count [] + (if vns_enabled default_config \<and> vn_index flaky_env \<noteq> None then 0 else 1) + j)
                   (SYMBOLS ! j @ ustr ''.VN'') (ustr ''60d'')) = None
               \<longrightarrow> lines ! (5 + j) =
                     SYMBOLS ! j @ ustr '': '' @ [0x2014] @ ustr '' (l'' @ [0x1ED7] @ ustr ''i d''
                       @ [0x1EEF] @ ustr '' li'' @ [0x1EC7] @ ustr ''u)'')"
    by blast
  have m: "ustr ''MBB'' @ ustr '': '' @ rest = ustr ''MBB: '' @ rest" for rest
    by (simp add: ustr_def)
  have f0: "yf_get_symbol (history flaky_env
                   (fetch_count [] + (if vns_enabled default_config \<and> vn_index flaky_env \<noteq> None then 0 else 1) + 0)
                   (SYMBOLS ! 0 @ ustr ''.VN'') (ustr ''60d'')) = None"
    by (simp add: s flaky_history yf_get_symbol_failed)
  have f1: "yf_get_symbol (history flaky_env
                   (fetch_count [] + (if vns_enabled default_config \<and> vn_index flaky_env \<noteq> None then 0 else 1) + 1)
                   (SYMBOLS ! 1 @ ustr ''.VN'') (ustr ''60d'')) =
              Some \<lparr>price = 11, pct = 10, vol = None, avg5_price = None, avg5_vol = None,
                     sma20 = None, sma50 = None, rsi14 = None\<rparr>"
    by (simp add: s flaky_history two_close_snapshot)
  from a[rule_format, OF lt(1)] f0
  have c0: "report = join_lines (take (5 + 0) lines) @ [newline] @ lines ! (5 + 0) @ [newline]
                       @ join_lines (drop (6 + 0) lines)"
    and l0': "lines ! (5 + 0) = SYMBOLS ! 0 @ ustr '': '' @ [0x2014] @ ustr '' (l'' @ [0x1ED7] @ ustr ''i d''
                       @ [0x1EEF] @ ustr '' li'' @ [0x1EC7] @ ustr ''u)''"
    by blast+
  from l0' have l0: "lines ! 5 = ustr ''MBB: '' @ [0x2014] @ ustr '' (l'' @ [0x1ED7] @ ustr ''i d''
                       @ [0x1EEF] @ ustr '' li'' @ [0x1EC7] @ ustr ''u)''"
    by (simp only: s m add_0_right)
  from a[rule_format, OF lt(2)] f1
  have c1: "report = join_lines (take (5 + 1) lines) @ [newline] @ lines ! (5 + 1) @ [newline]
                       @ join_lines (drop (6 + 1) lines)"
    and l1'': "lines ! (5 + 1) = symbol_line flaky_env default_config (SYMBOLS ! 1)
                (Some \<lparr>price = 11, pct = 10, vol = None, avg5_price = None, avg5_vol = None,
                     sma20 = None, sma50 = None, rsi14 = None\<rparr>)"
    by simp_all
  from l1'' have l1': "lines ! 6 = symbol_line flaky_env default_config (ustr ''HPG'')
                (Some \<lparr>price = 11, pct = 10, vol = None, avg5_price = None, avg5_vol = None,
                     sma20 = None, sma50 = None, rsi14 = None\<rparr>)"
    by (simp add: s)
  have l1: "lines ! 6 = ustr ''HPG: #.# +#.##% | KL='' @ [0x2014] @ ustr '' | TB tu''
                 @ [0x1EA7] @ ustr ''n: '' @ [0x2014] @ ustr '' / '' @ [0x2014] @ ustr '' | NN: Mua ''
                 @ [0x2014] @ ustr '' / B'' @ [0xE1] @ ustr ''n '' @ [0x2014]"
    unfolding l1'
    by (simp add: symbol_line_def foreign_for_def default_config_no_vns detail_line_def
          flaky_env_def demo_env_def fm_pct_def fm_shares_million_def fm_money_million_def
          vol_ratio_of_def vol_ratio_s_def em_dash_def ustr_def)
  from c0 l0 have r0: "report = join_lines (take 5 lines) @ [newline] @ ustr ''MBB: '' @ [0x2014]
                 @ ustr '' (l'' @ [0x1ED7] @ ustr ''i d''
                 @ [0x1EEF] @ ustr '' li'' @ [0x1EC7] @ ustr ''u)'' @ [newline] @ join_lines (drop 6 lines)"
    by simp
  from c1 l1 have r1: "report = join_lines (take 6 lines) @ [newline]
                 @ ustr ''HPG: #.# +#.##% | KL='' @ [0x2014] @ ustr '' | TB tu''
                 @ [0x1EA7] @ ustr ''n: '' @ [0x2014] @ ustr '' / '' @ [0x2014] @ ustr '' | NN: Mua ''
                 @ [0x2014] @ ustr '' / B'' @ [0xE1] @ ustr ''n '' @ [0x2014] @ [newline]
                 @ join_lines (drop 7 lines)"
    by simp
  from b r0 r1 show ?thesis by blast
qed

lemma count_list_filter: "P x \<Longrightarrow> count_list (filter P xs) x = count_list xs x"
  by (induction xs) auto

lemma count_list_map_SymbolFetch: "count_list (map SymbolFetch xs) (SymbolFetch s) = count_list xs s"
  by (induction xs) auto

lemma count_list_index_fetches: "count_list (index_fetches env cfg) (SymbolFetch s) = 0"
  by (simp add: index_fetches_def)

lemma build_report_trace:
  assumes "build_report env cfg [] = (Some report, tr)"
  shows "filter is_fetch tr = index_fetches env cfg @ map SymbolFetch SYMBOLS @ map SymbolFetch SYMBOLS"
    and "\<forall>e \<in> set tr. is_fetch e \<or> is_debug e"
    and "report \<noteq> [] \<and> hd report = 0x1F4CA"
proof -
  from assms obtain lines where rl: "report_lines env cfg [] = (Some lines, tr)"
    and rep: "report = join_lines lines"
    by (auto simp: build_report_Some)
  from report_lines_result[OF rl] obtain il rest ext where
    l: "lines = [header_line env, il,
                    foreign_market_line env (if vns_enabled cfg then try_vn_foreign env None else None),
                    [], detail_header] @ rest"
    and t: "tr = [] @ ext"
      "filter is_fetch ext = index_fetches env cfg @ map SymbolFetch SYMBOLS @ map SymbolFetch SYMBOLS"
      "\<forall>e \<in> set ext. is_fetch e \<or> is_debug e"
    by blast
  from t show "filter is_fetch tr = index_fetches env cfg @ map SymbolFetch SYMBOLS @ map SymbolFetch SYMBOLS"
    by simp
  from t show "\<forall>e \<in> set tr. is_fetch e \<or> is_debug e" by simp
  show "report \<noteq> [] \<and> hd report = 0x1F4CA"
    unfolding rep l by (simp add: header_line_def)
qed

lemma symbol_fetch_count:
  assumes "build_report env cfg [] = (Some report, tr)"
  shows "count_list tr (SymbolFetch s) = 2 * count_list SYMBOLS s"
proof -
  have "count_list tr (SymbolFetch s) = count_list (filter is_fetch tr) (SymbolFetch s)"
    by (simp add: count_list_filter)
  also have "\<dots> = 2 * count_list SYMBOLS s"
    unfolding build_report_trace(1)[OF assms]
    by (simp add: count_list_map_SymbolFetch count_list_index_fetches)
  finally show ?thesis .
qed

lemma index_fetch_count:
  assumes "build_report env cfg [] = (Some report, tr)"
  shows "length (filter is_index_fetch tr) = (if vns_enabled cfg \<and> vn_index env \<noteq> None then 0 else 1)"
proof -
  have imp: "\<And>e. is_index_fetch e \<Longrightarrow> is_fetch e"
    by (case_tac e) auto
  have "filter is_index_fetch tr = filter is_index_fetch (filter is_fetch tr)"
    using imp by (auto simp: filter_filter intro: filter_cong)
  also have "\<dots> = index_fetches env cfg"
    unfolding build_report_trace(1)[OF assms]
    by (simp add: index_fetches_def filter_map comp_def)
  finally show ?thesis by (simp add: index_fetches_def)
qed

lemma count_list_SYMBOLS: "s \<in> set SYMBOLS \<Longrightarrow> count_list SYMBOLS s = 1"
  by (auto simp: SYMBOLS_def ustr_def)

text \<open>
  C10 (as amended). In a report build that returns, \<open>yf_get_symbol\<close> is called exactly
  twice for every watchlist symbol (once in the detail loop, once in the alerts loop),
  and \<open>yf_get_index\<close> is called once, or not at all when \<open>vnstock\<close> supplied the index value.
\<close>

theorem fetch_counts:
  assumes "build_report env cfg [] = (Some report, tr)"
  shows "(\<forall>s. count_list tr (SymbolFetch s) = 2 * count_list SYMBOLS s) \<and>
         (\<forall>s \<in> set SYMBOLS. count_list tr (SymbolFetch s) = 2) \<and>
         length (filter is_index_fetch tr) =
           (if vns_enabled cfg \<and> vn_index env \<noteq> None then 0 else 1)"
  using symbol_fetch_count[OF assms] index_fetch_count[OF assms] count_list_SYMBOLS
  by simp

lemma demo_report_exists:
  "\<exists>report tr. build_report demo_env default_config [] = (Some report, tr)"
proof -
  have "fst (build_report demo_env default_config []) \<noteq> None"
    using build_report_aborts[of demo_env default_config "[]"] default_config_no_vns by simp
  then show ?thesis
    by (cases "build_report demo_env default_config []") auto
qed

theorem fetch_counts_witness:
  "\<exists>report tr. build_report demo_env default_config [] = (Some report, tr) \<and>
      count_list tr (SymbolFetch (ustr ''HPG'')) = 2 \<and> length (filter is_index_fetch tr) = 1"
proof -
  from demo_report_exists obtain report tr where
    b: "build_report demo_env default_config [] = (Some report, tr)" by blast
  have "ustr ''HPG'' \<in> set SYMBOLS" by (simp add: SYMBOLS_def)
  with fetch_counts[OF b] default_config_no_vns b show ?thesis by auto
qed

text \<open>
  C10 as stated fails: in a run with the default configuration \<open>yf_get_symbol\<close> is called
  twice for \<open>MBB\<close>, not once.
\<close>

theorem symbol_fetched_twice_counterexample:
  "count_list (snd (build_report demo_env default_config [])) (SymbolFetch (ustr ''MBB'')) = 2"
proof -
  from demo_report_exists obtain report tr where
    b: "build_report demo_env default_config [] = (Some report, tr)" by blast
  have "ustr ''MBB'' \<in> set SYMBOLS" by (simp add: SYMBOLS_def)
  from symbol_fetch_count[OF b, of "ustr ''MBB''"] count_list_SYMBOLS[OF this] b
  show ?thesis by simp
qed

section \<open>Properties of \<open>send_to_telegram\<close> and \<open>main\<close>\<close>

lemma not_debug_report:
  assumes "build_report env cfg [] = (Some report, tr)"
  shows "\<not> is_debug (Printed report)" and "report \<noteq> ustr ''=== Report preview ===''"
proof -
  from build_report_trace(3)[OF assms] have h: "report \<noteq> []" "hd report = 0x1F4CA" by simp_all
  show "\<not> is_debug (Printed report)"
  proof
    assume "is_debug (Printed report)"
    then have "take 8 report = ustr ''[DEBUG] ''" by simp
    then have "hd (take 8 report) = hd (ustr ''[DEBUG] '')" by simp
    with h show False by (simp add: ustr_def)
  qed
  show "report \<noteq> ustr ''=== Report preview ===''"
  proof
    assume "report = ustr ''=== Report preview ===''"
    then have "hd report = hd (ustr ''=== Report preview ==='')" by simp
    with h show False by (simp add: ustr_def)
  qed
qed

lemma send_to_telegram_absent:
  "bot_token cfg = [] \<or> chat_id cfg = [] \<Longrightarrow>
   send_to_telegram env cfg text tr =
     Some (False,
           tr @ [dbg (ustr ''BOT_TOKEN or CHAT_ID missing - printing preview instead of sending''),
                 Printed text])"
  by (simp add: send_to_telegram_def)

lemma main_absent:
  assumes "bot_token cfg = [] \<or> chat_id cfg = []"
    and "build_report env cfg [] = (Some report, tr1)"
  shows "main env cfg =
           Some (tr1 @ [Printed (ustr ''=== Report preview ===''), Printed report,
                        dbg (ustr ''BOT_TOKEN or CHAT_ID missing - printing preview instead of sending''),
                        Printed report, dbg (ustr ''Report not sent.'')])"
    and "count_list (tr1 @ [Printed (ustr ''=== Report preview ===''), Printed report,
                        dbg (ustr ''BOT_TOKEN or CHAT_ID missing - printing preview instead of sending''),
                        Printed report, dbg (ustr ''Report not sent.'')]) (Printed report) = 2"
    and "filter is_post (tr1 @ [Printed (ustr ''=== Report preview ===''), Printed report,
                        dbg (ustr ''BOT_TOKEN or CHAT_ID missing - printing preview instead of sending''),
                        Printed report, dbg (ustr ''Report not sent.'')]) = []"
proof -
  show "main env cfg =
           Some (tr1 @ [Printed (ustr ''=== Report preview ===''), Printed report,
                        dbg (ustr ''BOT_TOKEN or CHAT_ID missing - printing preview instead of sending''),
                        Printed report, dbg (ustr ''Report not sent.'')])"
    using assms by (simp add: main_def send_to_telegram_absent)
  have nd: "\<not> is_debug (Printed report)" and nb: "report \<noteq> ustr ''=== Report preview ===''"
    using not_debug_report[OF assms(2)] by simp_all
  have "Printed report \<notin> set tr1"
    using build_report_trace(2)[OF assms(2)] nd by auto
  then have c0: "count_list tr1 (Printed report) = 0" by simp
  have nd': "\<And>m. dbg m \<noteq> Printed report"
    using nd is_debug_dbg by metis
  show "count_list (tr1 @ [Printed (ustr ''=== Report preview ===''), Printed report,
                        dbg (ustr ''BOT_TOKEN or CHAT_ID missing - printing preview instead of sending''),
                        Printed report, dbg (ustr ''Report not sent.'')]) (Printed report) = 2"
    using c0 nb nd' by simp
  have "\<And>e. is_fetch e \<or> is_debug e \<Longrightarrow> \<not> is_post e"
    by (case_tac e) auto
  then have "filter is_post tr1 = []"
    using build_report_trace(2)[OF assms(2)] by (auto simp: filter_empty_conv)
  then show "filter is_post (tr1 @ [Printed (ustr ''=== Report preview ===''), Printed report,
                        dbg (ustr ''BOT_TOKEN or CHAT_ID missing - printing preview instead of sending''),
                        Printed report, dbg (ustr ''Report not sent.'')]) = []"
    by (simp add: dbg_def)
qed

text \<open>
  C5 (as amended). When the bot token or the chat id is empty, \<open>send_to_telegram\<close> returns
  \<open>False\<close> without an HTTP post and without raising, after printing its debug line and the
  text. Since \<open>main\<close> has printed the report as a preview before, a run whose
  \<open>build_report\<close> returns a report prints the report text exactly twice and posts nothing.
\<close>

theorem absent_credentials:
  assumes "bot_token cfg = [] \<or> chat_id cfg = []"
  shows "send_to_telegram env cfg text tr =
           Some (False,
             tr @ [dbg (ustr ''BOT_TOKEN or CHAT_ID missing - printing preview instead of sending''),
                   Printed text]) \<and>
         (\<forall>report tr1. build_report env cfg [] = (Some report, tr1) \<longrightarrow>
            (\<exists>run. main env cfg = Some run \<and>
                   run = tr1 @ [Printed (ustr ''=== Report preview ===''), Printed report,
                        dbg (ustr ''BOT_TOKEN or CHAT_ID missing - printing preview instead of sending''),
                        Printed report, dbg (ustr ''Report not sent.'')] \<and>
                   count_list run (Printed report) = 2 \<and>
                   filter is_post run = []))"
  using send_to_telegram_absent[OF assms] main_absent[OF assms] by simp

theorem absent_credentials_witness:
  "bot_token default_config = [] \<and>
   send_to_telegram demo_env default_config (ustr ''report'') [] =
     Some (False,
           [dbg (ustr ''BOT_TOKEN or CHAT_ID missing - printing preview instead of sending''),
            Printed (ustr ''report'')]) \<and>
   (\<exists>report run. fst (build_report demo_env default_config []) = Some report \<and>
       main demo_env default_config = Some run \<and> count_list run (Printed report) = 2)"
proof -
  have c: "bot_token default_config = [] \<or> chat_id default_config = []"
    by (simp add: default_config_def)
  from demo_report_exists obtain report tr where
    b: "build_report demo_env default_config [] = (Some report, tr)" by blast
  from absent_credentials[OF c, of demo_env "ustr ''report''" "[]"] b c
  show ?thesis by (auto simp: default_config_def)
qed

text \<open>
  C5 as stated fails: in a run without credentials the report text is printed twice, not
  once.
\<close>

theorem report_printed_twice_counterexample:
  "fst (build_report demo_env default_config []) \<noteq> None \<and>
   main demo_env default_config \<noteq> None \<and>
   count_list (the (main demo_env default_config))
     (Printed (the (fst (build_report demo_env default_config [])))) = 2"
proof -
  have c: "bot_token default_config = [] \<or> chat_id default_config = []"
    by (simp add: default_config_def)
  from demo_report_exists obtain report tr where
    b: "build_report demo_env default_config [] = (Some report, tr)" by blast
  from main_absent(1,2)[OF c b] b show ?thesis by simp
qed

end
